theory Spec2Isabelle
  imports Main
begin

unbundle bit_operations_syntax

section \<open>Python values and exceptions\<close>

text \<open>
  The calculator is \<^verbatim>\<open>src/Subnet-Calculator.py\<close>. Its two functions
  \<^verbatim>\<open>get_ip_class\<close> and \<^verbatim>\<open>calculate_subnet_details\<close> are embedded below, together
  with the part of CPython 3.11's \<^verbatim>\<open>ipaddress\<close> module that
  \<^verbatim>\<open>ipaddress.ip_network(s, strict=False)\<close> runs on a \<^verbatim>\<open>str\<close> argument.

  A Python \<^verbatim>\<open>str\<close> is a \<^typ>\<open>string\<close>: a list of characters with code points below 256.
  A Python \<^verbatim>\<open>int\<close> is an \<^typ>\<open>int\<close>. An exception is a value of \<open>exn\<close> carrying its
  message; a computation that can raise returns \<open>exn + 'a\<close>, with \<open>Inl\<close> the exception raised.
  \<^verbatim>\<open>AddressValueError\<close> and \<^verbatim>\<open>NetmaskValueError\<close> are subclasses of
  \<^verbatim>\<open>ValueError\<close>.
\<close>

datatype exn =
    AddressValueError string
  | NetmaskValueError string
  | ValueError string
  | OverflowError string
  | TypeError string
  | IndexError string
  | StopIteration

fun is_ValueError :: "exn \<Rightarrow> bool" where
  "is_ValueError (AddressValueError m) = True"
| "is_ValueError (NetmaskValueError m) = True"
| "is_ValueError (ValueError m) = True"
| "is_ValueError e = False"

fun is_Address_or_Netmask_error :: "exn \<Rightarrow> bool" where
  "is_Address_or_Netmask_error (AddressValueError m) = True"
| "is_Address_or_Netmask_error (NetmaskValueError m) = True"
| "is_Address_or_Netmask_error e = False"

text \<open>\<^verbatim>\<open>str(e)\<close> of an exception built from one message.\<close>

fun exn_str :: "exn \<Rightarrow> string" where
  "exn_str (AddressValueError m) = m"
| "exn_str (NetmaskValueError m) = m"
| "exn_str (ValueError m) = m"
| "exn_str (OverflowError m) = m"
| "exn_str (TypeError m) = m"
| "exn_str (IndexError m) = m"
| "exn_str StopIteration = []"

text \<open>Sequencing of computations that can raise.\<close>

definition bind_exn :: "exn + 'a \<Rightarrow> ('a \<Rightarrow> exn + 'b) \<Rightarrow> exn + 'b" where
  "bind_exn m f = (case m of Inl e \<Rightarrow> Inl e | Inr x \<Rightarrow> f x)"

fun mapM_exn :: "('a \<Rightarrow> exn + 'b) \<Rightarrow> 'a list \<Rightarrow> exn + 'b list" where
  "mapM_exn f [] = Inr []"
| "mapM_exn f (x # xs) =
     (case f x of Inl e \<Rightarrow> Inl e
      | Inr y \<Rightarrow> (case mapM_exn f xs of Inl e \<Rightarrow> Inl e | Inr ys \<Rightarrow> Inr (y # ys)))"

section \<open>Python string and integer builtins\<close>

text \<open>\<^verbatim>\<open>s.split(c)\<close> for a separator of one character: never the empty list.\<close>

fun split_str :: "char \<Rightarrow> string \<Rightarrow> string list" where
  "split_str c [] = [[]]"
| "split_str c (x # xs) =
     (if x = c then [] # split_str c xs
      else (case split_str c xs of [] \<Rightarrow> [[x]] | p # ps \<Rightarrow> (x # p) # ps))"

text \<open>\<^verbatim>\<open>sep.join(parts)\<close>.\<close>

fun join_str :: "string \<Rightarrow> string list \<Rightarrow> string" where
  "join_str sep [] = []"
| "join_str sep [p] = p"
| "join_str sep (p # q # ps) = p @ sep @ join_str sep (q # ps)"

text \<open>\<^verbatim>\<open>s.partition(c)\<close>: the text before the first \<open>c\<close>, whether \<open>c\<close> was found, the text after.\<close>

fun partition_str :: "char \<Rightarrow> string \<Rightarrow> string \<times> bool \<times> string" where
  "partition_str c [] = ([], False, [])"
| "partition_str c (x # xs) =
     (if x = c then ([], True, xs)
      else (case partition_str c xs of (a, found, b) \<Rightarrow> (x # a, found, b)))"

definition is_ascii_digit :: "char \<Rightarrow> bool" where
  "is_ascii_digit c = (c \<in> set ''0123456789'')"

text \<open>\<^verbatim>\<open>s.isascii() and s.isdigit()\<close>: \<^verbatim>\<open>isdigit\<close> is false on the empty string.\<close>

definition isascii_and_isdigit :: "string \<Rightarrow> bool" where
  "isascii_and_isdigit s = (s \<noteq> [] \<and> list_all is_ascii_digit s)"

definition digit_char :: "nat \<Rightarrow> char" where
  "digit_char d = ''0123456789abcdef'' ! d"

definition digit_val :: "char \<Rightarrow> nat" where
  "digit_val c =
     (let n = (of_char c :: nat)
      in if 48 \<le> n \<and> n \<le> 57 then n - 48
         else if 97 \<le> n \<and> n \<le> 102 then n - 87
         else n - 55)"

text \<open>The digits of a natural number in base \<open>b\<close>, most significant first.\<close>

fun nat_digits :: "nat \<Rightarrow> nat \<Rightarrow> string" where
  "nat_digits b n =
     (if n < b \<or> b < 2 then [digit_char n]
      else nat_digits b (n div b) @ [digit_char (n mod b)])"

declare nat_digits.simps [simp del]

text \<open>\<^verbatim>\<open>str(n)\<close> and \<^verbatim>\<open>'%d' % n\<close> of an int.\<close>

definition str_int :: "int \<Rightarrow> string" where
  "str_int n = (if n < 0 then CHR ''-'' # nat_digits 10 (nat (- n)) else nat_digits 10 (nat n))"

text \<open>\<^verbatim>\<open>'%x' % n\<close> of an int.\<close>

definition hex_int :: "int \<Rightarrow> string" where
  "hex_int n = (if n < 0 then CHR ''-'' # nat_digits 16 (nat (- n)) else nat_digits 16 (nat n))"

text \<open>The value of a string of digits in base \<open>b\<close>.\<close>

definition digits_value :: "nat \<Rightarrow> string \<Rightarrow> int" where
  "digits_value b s = int (foldl (\<lambda>acc c. acc * b + digit_val c) 0 s)"

text \<open>
  \<^verbatim>\<open>repr(s)\<close> of a \<^verbatim>\<open>str\<close>: double quotes when the text has a single quote and no
  double quote, single quotes otherwise; the quote and the backslash are escaped, tab,
  newline and carriage return by letter, every other character that is not printable as
  \<^verbatim>\<open>\xNN\<close>. Below 256 the printable characters are 32 to 126 and 161 to 255 without 173.
\<close>

definition py_printable :: "char \<Rightarrow> bool" where
  "py_printable c =
     (let n = (of_char c :: nat) in (32 \<le> n \<and> n < 127) \<or> (161 \<le> n \<and> n \<noteq> 173))"

definition hex_escape :: "char \<Rightarrow> string" where
  "hex_escape c =
     [CHR 0x5C, CHR ''x'', digit_char (of_char c div 16), digit_char (of_char c mod 16)]"

definition repr_char :: "char \<Rightarrow> char \<Rightarrow> string" where
  "repr_char quote c =
     (if c = quote \<or> c = CHR 0x5C then [CHR 0x5C, c]
      else if c = CHR 0x09 then [CHR 0x5C, CHR ''t'']
      else if c = CHR 0x0A then [CHR 0x5C, CHR ''n'']
      else if c = CHR 0x0D then [CHR 0x5C, CHR ''r'']
      else if py_printable c then [c]
      else hex_escape c)"

definition repr_quote :: "string \<Rightarrow> char" where
  "repr_quote s = (if CHR 0x27 \<in> set s \<and> CHR 0x22 \<notin> set s then CHR 0x22 else CHR 0x27)"

definition py_repr :: "string \<Rightarrow> string" where
  "py_repr s = (let q = repr_quote s in [q] @ concat (map (repr_char q) s) @ [q])"

text \<open>
  \<^verbatim>\<open>repr(b)\<close> of a \<^verbatim>\<open>bytes\<close> value: as for \<^verbatim>\<open>str\<close>, with the prefix \<^verbatim>\<open>b\<close> and only
  32 to 126 printable.
\<close>

definition repr_byte :: "char \<Rightarrow> char \<Rightarrow> string" where
  "repr_byte quote c =
     (if c = quote \<or> c = CHR 0x5C then [CHR 0x5C, c]
      else if c = CHR 0x09 then [CHR 0x5C, CHR ''t'']
      else if c = CHR 0x0A then [CHR 0x5C, CHR ''n'']
      else if c = CHR 0x0D then [CHR 0x5C, CHR ''r'']
      else if 32 \<le> (of_char c :: nat) \<and> (of_char c :: nat) < 127 then [c]
      else hex_escape c)"

definition py_repr_bytes :: "string \<Rightarrow> string" where
  "py_repr_bytes s =
     (let q = repr_quote s in [CHR ''b'', q] @ concat (map (repr_byte q) s) @ [q])"

text \<open>
  \<^verbatim>\<open>int(s)\<close> and \<^verbatim>\<open>int(s, 10)\<close> of a \<^verbatim>\<open>str\<close>. White space around the literal is
  dropped (below 256: 9 to 13, 32, 133 and 160), one sign may lead, and single underscores
  may stand between digits. A literal of more than \<^verbatim>\<open>sys.get_int_max_str_digits()\<close> digits
  (4300 unless reconfigured) is refused. Every failure is a \<^verbatim>\<open>ValueError\<close>.
\<close>

definition int_space :: "char \<Rightarrow> bool" where
  "int_space c =
     (let n = (of_char c :: nat) in (9 \<le> n \<and> n \<le> 13) \<or> n = 32 \<or> n = 133 \<or> n = 160)"

definition strip_int_space :: "string \<Rightarrow> string" where
  "strip_int_space s = rev (dropWhile int_space (rev (dropWhile int_space s)))"

text \<open>Digits with single underscores between them; the flag says a digit came just before.\<close>

fun digits_underscores :: "bool \<Rightarrow> string \<Rightarrow> bool" where
  "digits_underscores after_digit [] = after_digit"
| "digits_underscores after_digit (c # cs) =
     (if is_ascii_digit c then digits_underscores True cs
      else if c = CHR ''_'' \<and> after_digit then (cs \<noteq> [] \<and> digits_underscores False cs)
      else False)"

definition int_max_str_digits :: nat where
  "int_max_str_digits = 4300"

definition py_int :: "string \<Rightarrow> exn + int" where
  "py_int s =
     (let t = strip_int_space s;
          negative = (case t of [] \<Rightarrow> False | c # r \<Rightarrow> c = CHR ''-'');
          body = (case t of [] \<Rightarrow> []
                  | c # r \<Rightarrow> if c = CHR ''-'' \<or> c = CHR ''+'' then r else t);
          ds = filter is_ascii_digit body
      in if \<not> digits_underscores False body then
           Inl (ValueError (''invalid literal for int() with base 10: '' @ py_repr s))
         else if int_max_str_digits < length ds then
           Inl (ValueError (''Exceeds the limit (4300 digits) for integer string conversion: value has ''
                  @ str_int (int (length ds))
                  @ '' digits; use sys.set_int_max_str_digits() to increase the limit''))
         else Inr (if negative then - digits_value 10 ds else digits_value 10 ds))"

text \<open>
  \<^verbatim>\<open>int(s, 16)\<close> on the strings that reach it below, which hold hexadecimal digits only
  (\<^verbatim>\<open>_parse_hextet\<close> has checked it): the empty string is refused.
\<close>

definition is_hex_digit :: "char \<Rightarrow> bool" where
  "is_hex_digit c = (c \<in> set ''0123456789ABCDEFabcdef'')"

definition py_int16 :: "string \<Rightarrow> exn + int" where
  "py_int16 s =
     (if s = [] \<or> \<not> list_all is_hex_digit s then
        Inl (ValueError (''invalid literal for int() with base 16: '' @ py_repr s))
      else Inr (digits_value 16 s))"

section \<open>The historical class of an IPv4 address\<close>

text \<open>
  \<^verbatim>\<open>get_ip_class\<close> (lines 10 to 29). The bare \<^verbatim>\<open>except\<close> turns every exception of
  \<^verbatim>\<open>int(ip_address_str.split('.')[0])\<close> into the label \<^verbatim>\<open>N/A\<close>.
\<close>

definition get_ip_class :: "string \<Rightarrow> string" where
  "get_ip_class ip_address_str =
     (case (case split_str CHR ''.'' ip_address_str of
              [] \<Rightarrow> Inl (IndexError ''list index out of range'')
            | p # ps \<Rightarrow> py_int p) of
        Inl e \<Rightarrow> ''N/A''
      | Inr first_octet \<Rightarrow>
          if 1 \<le> first_octet \<and> first_octet \<le> 126 then ''Class A''
          else if 128 \<le> first_octet \<and> first_octet \<le> 191 then ''Class B''
          else if 192 \<le> first_octet \<and> first_octet \<le> 223 then ''Class C''
          else if 224 \<le> first_octet \<and> first_octet \<le> 239 then ''Class D (Multicast)''
          else if 240 \<le> first_octet \<and> first_octet \<le> 255 then ''Class E (Reserved)''
          else ''Special/Reserved'')"

section \<open>The \<^verbatim>\<open>ipaddress\<close> module: addresses\<close>

text \<open>
  An \<^verbatim>\<open>IPv4Address\<close> holds \<^verbatim>\<open>_ip\<close>; an \<^verbatim>\<open>IPv6Address\<close> holds \<^verbatim>\<open>_ip\<close> and
  \<^verbatim>\<open>_scope_id\<close> (\<^verbatim>\<open>None\<close> or the text after \<^verbatim>\<open>%\<close>).
\<close>

datatype ip_address =
    IPv4Address (ip_int: int)
  | IPv6Address (ip_int: int) (scope_id: "string option")

definition IPV4LENGTH :: int where
  "IPV4LENGTH = 32"

definition IPV6LENGTH :: int where
  "IPV6LENGTH = 128"

text \<open>\<^verbatim>\<open>_ALL_ONES = 2**length - 1\<close> of the class whose \<^verbatim>\<open>_max_prefixlen\<close> is given.\<close>

definition ALL_ONES :: "int \<Rightarrow> int" where
  "ALL_ONES max_prefixlen = 2 ^ nat max_prefixlen - 1"

fun is_AddressValueError :: "exn \<Rightarrow> bool" where
  "is_AddressValueError (AddressValueError m) = True"
| "is_AddressValueError e = False"

fun is_NetmaskValueError :: "exn \<Rightarrow> bool" where
  "is_NetmaskValueError (NetmaskValueError m) = True"
| "is_NetmaskValueError e = False"

text \<open>\<^verbatim>\<open>n.to_bytes(len, 'big')\<close>: the bytes as characters.\<close>

fun big_endian :: "nat \<Rightarrow> nat \<Rightarrow> string" where
  "big_endian 0 n = []"
| "big_endian (Suc len) n = big_endian len (n div 256) @ [char_of (n mod 256)]"

definition to_bytes :: "nat \<Rightarrow> int \<Rightarrow> exn + string" where
  "to_bytes len n =
     (if n < 0 then Inl (OverflowError ''can't convert negative int to unsigned'')
      else if 256 ^ len \<le> n then Inl (OverflowError ''int too big to convert'')
      else Inr (big_endian len (nat n)))"

text \<open>\<^verbatim>\<open>int.from_bytes(octets, 'big')\<close> on values already between 0 and 255.\<close>

definition from_bytes :: "int list \<Rightarrow> int" where
  "from_bytes bs = foldl (\<lambda>acc b. acc * 256 + b) 0 bs"

text \<open>\<^verbatim>\<open>_check_int_address\<close> and the constructors \<^verbatim>\<open>IPv4Address(int)\<close>, \<^verbatim>\<open>IPv6Address(int)\<close>.\<close>

definition check_int_address :: "int \<Rightarrow> int \<Rightarrow> int \<Rightarrow> exn + unit" where
  "check_int_address version max_prefixlen address =
     (if address < 0 then
        Inl (AddressValueError (str_int address @ '' (< 0) is not permitted as an IPv''
               @ str_int version @ '' address''))
      else if address > ALL_ONES max_prefixlen then
        Inl (AddressValueError (str_int address @ '' (>= 2**'' @ str_int max_prefixlen
               @ '') is not permitted as an IPv'' @ str_int version @ '' address''))
      else Inr ())"

definition IPv4Address_of_int :: "int \<Rightarrow> exn + ip_address" where
  "IPv4Address_of_int address =
     bind_exn (check_int_address 4 IPV4LENGTH address) (\<lambda>u. Inr (IPv4Address address))"

definition IPv6Address_of_int :: "int \<Rightarrow> exn + ip_address" where
  "IPv6Address_of_int address =
     bind_exn (check_int_address 6 IPV6LENGTH address) (\<lambda>u. Inr (IPv6Address address None))"

text \<open>\<^verbatim>\<open>_BaseV4._parse_octet\<close>.\<close>

definition parse_octet :: "string \<Rightarrow> exn + int" where
  "parse_octet octet_str =
     (if octet_str = [] then Inl (ValueError ''Empty octet not permitted'')
      else if \<not> isascii_and_isdigit octet_str then
        Inl (ValueError (''Only decimal digits permitted in '' @ py_repr octet_str))
      else if length octet_str > 3 then
        Inl (ValueError (''At most 3 characters permitted in '' @ py_repr octet_str))
      else if octet_str \<noteq> ''0'' \<and> (case octet_str of [] \<Rightarrow> False | c # cs \<Rightarrow> c = CHR ''0'') then
        Inl (ValueError (''Leading zeros are not permitted in '' @ py_repr octet_str))
      else bind_exn (py_int octet_str) (\<lambda>octet_int.
        if octet_int > 255 then
          Inl (ValueError (''Octet '' @ str_int octet_int @ '' (> 255) not permitted''))
        else Inr octet_int))"

text \<open>\<^verbatim>\<open>_BaseV4._ip_int_from_string\<close>.\<close>

definition ip_int_from_string_v4 :: "string \<Rightarrow> exn + int" where
  "ip_int_from_string_v4 ip_str =
     (if ip_str = [] then Inl (AddressValueError ''Address cannot be empty'')
      else let octets = split_str CHR ''.'' ip_str
        in if length octets \<noteq> 4 then
             Inl (AddressValueError (''Expected 4 octets in '' @ py_repr ip_str))
           else (case mapM_exn parse_octet octets of
                   Inl exc \<Rightarrow>
                     if is_ValueError exc then
                       Inl (AddressValueError (exn_str exc @ '' in '' @ py_repr ip_str))
                     else Inl exc
                 | Inr bs \<Rightarrow> Inr (from_bytes bs)))"

text \<open>\<^verbatim>\<open>IPv4Address(str)\<close>.\<close>

definition IPv4Address_of_str :: "string \<Rightarrow> exn + ip_address" where
  "IPv4Address_of_str address =
     (if CHR ''/'' \<in> set address then
        Inl (AddressValueError (''Unexpected '/' in '' @ py_repr address))
      else bind_exn (ip_int_from_string_v4 address) (\<lambda>ip. Inr (IPv4Address ip)))"

text \<open>\<^verbatim>\<open>_BaseV4._string_from_ip_int\<close>.\<close>

definition string_from_ip_int_v4 :: "int \<Rightarrow> exn + string" where
  "string_from_ip_int_v4 ip =
     bind_exn (to_bytes 4 ip) (\<lambda>bs. Inr (join_str ''.'' (map (\<lambda>b. str_int (of_char b)) bs)))"

section \<open>The \<^verbatim>\<open>ipaddress\<close> module: netmasks\<close>

text \<open>\<^verbatim>\<open>n.bit_length()\<close>.\<close>

fun bit_length_nat :: "nat \<Rightarrow> nat" where
  "bit_length_nat n = (if n = 0 then 0 else Suc (bit_length_nat (n div 2)))"

declare bit_length_nat.simps [simp del]

definition bit_length :: "int \<Rightarrow> int" where
  "bit_length n = int (bit_length_nat (nat \<bar>n\<bar>))"

definition count_righthand_zero_bits :: "int \<Rightarrow> int \<Rightarrow> int" where
  "count_righthand_zero_bits number bits =
     (if number = 0 then bits else min bits (bit_length (NOT number AND (number - 1))))"

text \<open>\<^verbatim>\<open>_ip_int_from_prefix\<close>: the netmask of a prefix length.\<close>

definition ip_int_from_prefix :: "int \<Rightarrow> int \<Rightarrow> int" where
  "ip_int_from_prefix max_prefixlen prefixlen =
     ALL_ONES max_prefixlen XOR drop_bit (nat prefixlen) (ALL_ONES max_prefixlen)"

text \<open>\<^verbatim>\<open>_prefix_from_ip_int\<close>: the prefix length of a netmask given as an integer.\<close>

definition prefix_from_ip_int :: "int \<Rightarrow> int \<Rightarrow> exn + int" where
  "prefix_from_ip_int max_prefixlen ip =
     (let trailing_zeroes = count_righthand_zero_bits ip max_prefixlen;
          prefixlen = max_prefixlen - trailing_zeroes;
          leading_ones = drop_bit (nat trailing_zeroes) ip;
          all_ones = push_bit (nat prefixlen) 1 - 1
      in if leading_ones \<noteq> all_ones then
           bind_exn (to_bytes (nat (max_prefixlen div 8)) ip) (\<lambda>details.
             Inl (ValueError (''Netmask pattern '' @ py_repr_bytes details
                    @ '' mixes zeroes & ones'')))
         else Inr prefixlen)"

text \<open>\<^verbatim>\<open>_report_invalid_netmask\<close>, given the \<^verbatim>\<open>repr\<close> of its argument.\<close>

definition report_invalid_netmask :: "string \<Rightarrow> exn + 'a" where
  "report_invalid_netmask netmask_repr =
     Inl (NetmaskValueError (netmask_repr @ '' is not a valid netmask''))"

text \<open>\<^verbatim>\<open>_prefix_from_prefix_string\<close>.\<close>

definition prefix_from_prefix_string :: "int \<Rightarrow> string \<Rightarrow> exn + int" where
  "prefix_from_prefix_string max_prefixlen prefixlen_str =
     (if \<not> isascii_and_isdigit prefixlen_str then
        report_invalid_netmask (py_repr prefixlen_str)
      else (case py_int prefixlen_str of
              Inl e \<Rightarrow>
                if is_ValueError e then report_invalid_netmask (py_repr prefixlen_str)
                else Inl e
            | Inr prefixlen \<Rightarrow>
                if \<not> (0 \<le> prefixlen \<and> prefixlen \<le> max_prefixlen) then
                  report_invalid_netmask (py_repr prefixlen_str)
                else Inr prefixlen))"

text \<open>
  \<^verbatim>\<open>_prefix_from_ip_string\<close>, which only the IPv4 class calls: a dotted netmask, or else
  a dotted hostmask.
\<close>

definition prefix_from_ip_string :: "string \<Rightarrow> exn + int" where
  "prefix_from_ip_string ip_str =
     (case ip_int_from_string_v4 ip_str of
        Inl e \<Rightarrow>
          if is_AddressValueError e then report_invalid_netmask (py_repr ip_str) else Inl e
      | Inr ip \<Rightarrow>
          (case prefix_from_ip_int IPV4LENGTH ip of
             Inr prefixlen \<Rightarrow> Inr prefixlen
           | Inl e \<Rightarrow>
               if \<not> is_ValueError e then Inl e
               else (case prefix_from_ip_int IPV4LENGTH (ip XOR ALL_ONES IPV4LENGTH) of
                       Inr prefixlen \<Rightarrow> Inr prefixlen
                     | Inl e' \<Rightarrow>
                         if is_ValueError e' then report_invalid_netmask (py_repr ip_str)
                         else Inl e')))"

text \<open>
  The argument of \<^verbatim>\<open>_make_netmask\<close>: the text after the \<^verbatim>\<open>/\<close>, or the integer
  \<^verbatim>\<open>_max_prefixlen\<close> when the input has no \<^verbatim>\<open>/\<close>. It is also the key of
  \<^verbatim>\<open>_netmask_cache\<close>, a dictionary of the class that lives across calls.
\<close>

datatype mask_arg = MaskStr string | MaskInt int

type_synonym netmask_cache = "mask_arg \<rightharpoonup> ip_address \<times> int"

text \<open>What \<^verbatim>\<open>_BaseV4._make_netmask\<close> computes for a key that is not in the cache.\<close>

definition compute_netmask_v4 :: "mask_arg \<Rightarrow> exn + ip_address \<times> int" where
  "compute_netmask_v4 arg =
     bind_exn
       (case arg of
          MaskInt prefixlen \<Rightarrow>
            if \<not> (0 \<le> prefixlen \<and> prefixlen \<le> IPV4LENGTH) then
              report_invalid_netmask (str_int prefixlen)
            else Inr prefixlen
        | MaskStr s \<Rightarrow>
            (case prefix_from_prefix_string IPV4LENGTH s of
               Inr prefixlen \<Rightarrow> Inr prefixlen
             | Inl e \<Rightarrow> if is_NetmaskValueError e then prefix_from_ip_string s else Inl e))
       (\<lambda>prefixlen.
          bind_exn (IPv4Address_of_int (ip_int_from_prefix IPV4LENGTH prefixlen)) (\<lambda>netmask.
            Inr (netmask, prefixlen)))"

text \<open>\<^verbatim>\<open>_BaseV4._make_netmask\<close>: the result, and the cache after the call.\<close>

definition make_netmask_v4 ::
  "netmask_cache \<Rightarrow> mask_arg \<Rightarrow> (exn + ip_address \<times> int) \<times> netmask_cache" where
  "make_netmask_v4 cache arg =
     (case cache arg of
        Some entry \<Rightarrow> (Inr entry, cache)
      | None \<Rightarrow>
          (case compute_netmask_v4 arg of
             Inl e \<Rightarrow> (Inl e, cache)
           | Inr entry \<Rightarrow> (Inr entry, cache(arg \<mapsto> entry))))"

section \<open>The \<^verbatim>\<open>ipaddress\<close> module: IPv6 addresses\<close>

text \<open>\<^verbatim>\<open>_BaseV6._parse_hextet\<close>.\<close>

definition parse_hextet :: "string \<Rightarrow> exn + int" where
  "parse_hextet hextet_str =
     (if \<not> list_all is_hex_digit hextet_str then
        Inl (ValueError (''Only hex digits permitted in '' @ py_repr hextet_str))
      else if length hextet_str > 4 then
        Inl (ValueError (''At most 4 characters permitted in '' @ py_repr hextet_str))
      else py_int16 hextet_str)"

text \<open>The two loops of \<^verbatim>\<open>_ip_int_from_string\<close> that shift the hextets in.\<close>

fun parse_hextets :: "int \<Rightarrow> string list \<Rightarrow> exn + int" where
  "parse_hextets ip [] = Inr ip"
| "parse_hextets ip (p # ps) =
     (case parse_hextet p of
        Inl e \<Rightarrow> Inl e
      | Inr h \<Rightarrow> parse_hextets (push_bit 16 ip OR h) ps)"

text \<open>
  The loop of \<^verbatim>\<open>_ip_int_from_string\<close> that looks for the one empty part strictly
  between the first and the last: \<open>i\<close> is the index of the head of the list.
\<close>

fun find_skip_index :: "string \<Rightarrow> nat \<Rightarrow> nat option \<Rightarrow> string list \<Rightarrow> exn + nat option" where
  "find_skip_index ip_str i skip_index [] = Inr skip_index"
| "find_skip_index ip_str i skip_index (p # ps) =
     (if p = [] then
        (if skip_index \<noteq> None then
           Inl (AddressValueError (''At most one '::' permitted in '' @ py_repr ip_str))
         else find_skip_index ip_str (Suc i) (Some i) ps)
      else find_skip_index ip_str (Suc i) skip_index ps)"

text \<open>
  \<^verbatim>\<open>_BaseV6._ip_int_from_string\<close>. The last part is \<^verbatim>\<open>parts[-1]\<close>; the first loop
  reads \<^verbatim>\<open>parts[0:parts_hi]\<close> and the second the last \<^verbatim>\<open>parts_lo\<close> parts.
\<close>

definition ip_int_from_string_v6 :: "string \<Rightarrow> exn + int" where
  "ip_int_from_string_v6 ip_str =
     (if ip_str = [] then Inl (AddressValueError ''Address cannot be empty'')
      else let parts = split_str CHR '':'' ip_str
        in if length parts < 3 then
             Inl (AddressValueError (''At least 3 parts expected in '' @ py_repr ip_str))
           else
             bind_exn
               (if CHR ''.'' \<in> set (last parts) then
                  (case IPv4Address_of_str (last parts) of
                     Inl exc \<Rightarrow>
                       if is_AddressValueError exc then
                         Inl (AddressValueError (exn_str exc @ '' in '' @ py_repr ip_str))
                       else Inl exc
                   | Inr a \<Rightarrow>
                       Inr (butlast parts
                              @ [hex_int (drop_bit 16 (ip_int a) AND 0xFFFF),
                                 hex_int (ip_int a AND 0xFFFF)]))
                else Inr parts)
               (\<lambda>parts.
                  if length parts > 9 then
                    Inl (AddressValueError (''At most 8 colons permitted in '' @ py_repr ip_str))
                  else
                    bind_exn (find_skip_index ip_str 1 None (butlast (tl parts))) (\<lambda>skip_index.
                    bind_exn
                      (case skip_index of
                         Some i \<Rightarrow>
                           let parts_hi = int i;
                               parts_lo = int (length parts) - int i - 1
                           in bind_exn
                                (if hd parts = [] then
                                   (if parts_hi - 1 \<noteq> 0 then
                                      Inl (AddressValueError
                                             (''Leading ':' only permitted as part of '::' in ''
                                                @ py_repr ip_str))
                                    else Inr (parts_hi - 1))
                                 else Inr parts_hi)
                                (\<lambda>parts_hi.
                              bind_exn
                                (if last parts = [] then
                                   (if parts_lo - 1 \<noteq> 0 then
                                      Inl (AddressValueError
                                             (''Trailing ':' only permitted as part of '::' in ''
                                                @ py_repr ip_str))
                                    else Inr (parts_lo - 1))
                                 else Inr parts_lo)
                                (\<lambda>parts_lo.
                              let parts_skipped = 8 - (parts_hi + parts_lo)
                              in if parts_skipped < 1 then
                                   Inl (AddressValueError
                                          (''Expected at most 7 other parts with '::' in ''
                                             @ py_repr ip_str))
                                 else Inr (parts_hi, parts_lo, parts_skipped)))
                       | None \<Rightarrow>
                           if length parts \<noteq> 8 then
                             Inl (AddressValueError
                                    (''Exactly 8 parts expected without '::' in ''
                                       @ py_repr ip_str))
                           else if hd parts = [] then
                             Inl (AddressValueError
                                    (''Leading ':' only permitted as part of '::' in ''
                                       @ py_repr ip_str))
                           else if last parts = [] then
                             Inl (AddressValueError
                                    (''Trailing ':' only permitted as part of '::' in ''
                                       @ py_repr ip_str))
                           else Inr (int (length parts), 0, 0))
                      (\<lambda>(parts_hi, parts_lo, parts_skipped).
                         (case bind_exn (parse_hextets 0 (take (nat parts_hi) parts)) (\<lambda>ip.
                                 parse_hextets (push_bit (nat (16 * parts_skipped)) ip)
                                   (drop (length parts - nat parts_lo) parts)) of
                            Inl exc \<Rightarrow>
                              if is_ValueError exc then
                                Inl (AddressValueError (exn_str exc @ '' in '' @ py_repr ip_str))
                              else Inl exc
                          | Inr ip \<Rightarrow> Inr ip)))))"

text \<open>\<^verbatim>\<open>_BaseV6._split_scope_id\<close>.\<close>

definition split_scope_id :: "string \<Rightarrow> exn + string \<times> string option" where
  "split_scope_id ip_str =
     (case partition_str CHR ''%'' ip_str of
        (addr, sep, scope) \<Rightarrow>
          if \<not> sep then Inr (addr, None)
          else if scope = [] \<or> CHR ''%'' \<in> set scope then
            Inl (AddressValueError (''Invalid IPv6 address: '' @ [CHR 0x22] @ py_repr ip_str
                   @ [CHR 0x22]))
          else Inr (addr, Some scope))"

text \<open>\<^verbatim>\<open>IPv6Address(str)\<close>.\<close>

definition IPv6Address_of_str :: "string \<Rightarrow> exn + ip_address" where
  "IPv6Address_of_str address =
     (if CHR ''/'' \<in> set address then
        Inl (AddressValueError (''Unexpected '/' in '' @ py_repr address))
      else bind_exn (split_scope_id address) (\<lambda>(addr_str, scope).
             bind_exn (ip_int_from_string_v6 addr_str) (\<lambda>ip. Inr (IPv6Address ip scope))))"

text \<open>
  \<^verbatim>\<open>_BaseV6._compress_hextets\<close>: the loop keeps the best run of \<^verbatim>\<open>'0'\<close> hextets
  (\<open>-1\<close> is no start), then the run is replaced by one empty string, with a second one when
  it touches either end.
\<close>

fun best_doublecolon ::
  "int \<Rightarrow> int \<times> int \<times> int \<times> int \<Rightarrow> string list \<Rightarrow> int \<times> int" where
  "best_doublecolon index (best_start, best_len, start, len) [] = (best_start, best_len)"
| "best_doublecolon index (best_start, best_len, start, len) (hextet # hextets) =
     (if hextet = ''0'' then
        (let len = len + 1;
             start = (if start = - 1 then index else start)
         in if len > best_len then best_doublecolon (index + 1) (start, len, start, len) hextets
            else best_doublecolon (index + 1) (best_start, best_len, start, len) hextets)
      else best_doublecolon (index + 1) (best_start, best_len, - 1, 0) hextets)"

definition compress_hextets :: "string list \<Rightarrow> string list" where
  "compress_hextets hextets =
     (case best_doublecolon 0 (- 1, 0, - 1, 0) hextets of
        (best_start, best_len) \<Rightarrow>
          if best_len > 1 then
            (let best_end = best_start + best_len;
                 hextets1 = (if best_end = int (length hextets) then hextets @ [[]] else hextets);
                 hextets2 = take (nat best_start) hextets1 @ [[]] @ drop (nat best_end) hextets1
             in if best_start = 0 then [] # hextets2 else hextets2)
          else hextets)"

text \<open>
  \<^verbatim>\<open>_BaseV6._string_from_ip_int\<close>, for \<open>0 \<le> ip\<close> (an address never holds a negative
  \<^verbatim>\<open>_ip\<close>): \<^verbatim>\<open>'%032x' % ip\<close> pads the hexadecimal digits with zeros to 32 characters.
\<close>

definition hex32 :: "int \<Rightarrow> string" where
  "hex32 ip = (let ds = hex_int ip in replicate (32 - length ds) CHR ''0'' @ ds)"

definition string_from_ip_int_v6 :: "int \<Rightarrow> exn + string" where
  "string_from_ip_int_v6 ip =
     (if ip > ALL_ONES IPV6LENGTH then Inl (ValueError ''IPv6 address is too large'')
      else let hex_str = hex32 ip
        in bind_exn
             (mapM_exn (\<lambda>x. bind_exn (py_int16 (take 4 (drop x hex_str))) (\<lambda>h. Inr (hex_int h)))
                [0, 4, 8, 12, 16, 20, 24, 28])
             (\<lambda>hextets. Inr (join_str '':'' (compress_hextets hextets))))"

text \<open>\<^verbatim>\<open>str(address)\<close>: \<^verbatim>\<open>_BaseAddress.__str__\<close> and \<^verbatim>\<open>IPv6Address.__str__\<close>.\<close>

fun str_address :: "ip_address \<Rightarrow> exn + string" where
  "str_address (IPv4Address ip) = string_from_ip_int_v4 ip"
| "str_address (IPv6Address ip scope) =
     bind_exn (string_from_ip_int_v6 ip) (\<lambda>ip_str.
       Inr (case scope of
              None \<Rightarrow> ip_str
            | Some sc \<Rightarrow> if sc \<noteq> [] then ip_str @ ''%'' @ sc else ip_str))"

text \<open>\<^verbatim>\<open>address + n\<close> and \<^verbatim>\<open>address - n\<close>: \<^verbatim>\<open>self.__class__(int(self) + other)\<close>.\<close>

fun address_add :: "ip_address \<Rightarrow> int \<Rightarrow> exn + ip_address" where
  "address_add (IPv4Address ip) n = IPv4Address_of_int (ip + n)"
| "address_add (IPv6Address ip scope) n = IPv6Address_of_int (ip + n)"

definition address_sub :: "ip_address \<Rightarrow> int \<Rightarrow> exn + ip_address" where
  "address_sub a n = address_add a (- n)"

text \<open>What \<^verbatim>\<open>_BaseV6._make_netmask\<close> computes for a key that is not in the cache.\<close>

definition compute_netmask_v6 :: "mask_arg \<Rightarrow> exn + ip_address \<times> int" where
  "compute_netmask_v6 arg =
     bind_exn
       (case arg of
          MaskInt prefixlen \<Rightarrow>
            if \<not> (0 \<le> prefixlen \<and> prefixlen \<le> IPV6LENGTH) then
              report_invalid_netmask (str_int prefixlen)
            else Inr prefixlen
        | MaskStr s \<Rightarrow> prefix_from_prefix_string IPV6LENGTH s)
       (\<lambda>prefixlen.
          bind_exn (IPv6Address_of_int (ip_int_from_prefix IPV6LENGTH prefixlen)) (\<lambda>netmask.
            Inr (netmask, prefixlen)))"

definition make_netmask_v6 ::
  "netmask_cache \<Rightarrow> mask_arg \<Rightarrow> (exn + ip_address \<times> int) \<times> netmask_cache" where
  "make_netmask_v6 cache arg =
     (case cache arg of
        Some entry \<Rightarrow> (Inr entry, cache)
      | None \<Rightarrow>
          (case compute_netmask_v6 arg of
             Inl e \<Rightarrow> (Inl e, cache)
           | Inr entry \<Rightarrow> (Inr entry, cache(arg \<mapsto> entry))))"

section \<open>The \<^verbatim>\<open>ipaddress\<close> module: networks\<close>

text \<open>\<^verbatim>\<open>_split_optional_netmask\<close> and \<^verbatim>\<open>_split_addr_prefix\<close> on a \<^verbatim>\<open>str\<close>.\<close>

definition split_optional_netmask :: "string \<Rightarrow> exn + string list" where
  "split_optional_netmask address =
     (let addr = split_str CHR ''/'' address
      in if length addr > 2 then
           Inl (AddressValueError (''Only one '/' permitted in '' @ py_repr address))
         else Inr addr)"

definition split_addr_prefix :: "int \<Rightarrow> string \<Rightarrow> exn + string \<times> mask_arg" where
  "split_addr_prefix max_prefixlen address =
     bind_exn (split_optional_netmask address) (\<lambda>parts.
       if length parts > 1 then
         (case parts of
            [addr, m] \<Rightarrow> Inr (addr, MaskStr m)
          | _ \<Rightarrow> Inl (ValueError ''too many values to unpack (expected 2)''))
       else (case parts of
               [] \<Rightarrow> Inl (IndexError ''list index out of range'')
             | addr # rest \<Rightarrow> Inr (addr, MaskInt max_prefixlen)))"

text \<open>
  An \<^verbatim>\<open>IPv4Network\<close> or \<^verbatim>\<open>IPv6Network\<close> holds \<^verbatim>\<open>network_address\<close>, \<^verbatim>\<open>netmask\<close>
  and \<^verbatim>\<open>_prefixlen\<close>.
\<close>

datatype ip_network =
    IPv4Network (network_address: ip_address) (netmask: ip_address) (prefixlen: int)
  | IPv6Network (network_address: ip_address) (netmask: ip_address) (prefixlen: int)

fun version :: "ip_network \<Rightarrow> int" where
  "version (IPv4Network na nm p) = 4"
| "version (IPv6Network na nm p) = 6"

fun max_prefixlen :: "ip_network \<Rightarrow> int" where
  "max_prefixlen (IPv4Network na nm p) = IPV4LENGTH"
| "max_prefixlen (IPv6Network na nm p) = IPV6LENGTH"

text \<open>\<^verbatim>\<open>self._address_class(n)\<close>.\<close>

fun address_class :: "ip_network \<Rightarrow> int \<Rightarrow> exn + ip_address" where
  "address_class (IPv4Network na nm p) n = IPv4Address_of_int n"
| "address_class (IPv6Network na nm p) n = IPv6Address_of_int n"

text \<open>\<^verbatim>\<open>IPv4Network(address, strict=False)\<close> on a \<^verbatim>\<open>str\<close>, with the cache before and after.\<close>

definition IPv4Network_init :: "netmask_cache \<Rightarrow> string \<Rightarrow> (exn + ip_network) \<times> netmask_cache" where
  "IPv4Network_init cache address =
     (case split_addr_prefix IPV4LENGTH address of
        Inl e \<Rightarrow> (Inl e, cache)
      | Inr (addr, m) \<Rightarrow>
          (case IPv4Address_of_str addr of
             Inl e \<Rightarrow> (Inl e, cache)
           | Inr na \<Rightarrow>
               (case make_netmask_v4 cache m of
                  (Inl e, cache') \<Rightarrow> (Inl e, cache')
                | (Inr (nm, p), cache') \<Rightarrow>
                    (let packed = ip_int na
                     in if packed AND ip_int nm \<noteq> packed then
                          (bind_exn (IPv4Address_of_int (packed AND ip_int nm)) (\<lambda>na'.
                             Inr (IPv4Network na' nm p)), cache')
                        else (Inr (IPv4Network na nm p), cache')))))"

text \<open>\<^verbatim>\<open>IPv6Network(address, strict=False)\<close> on a \<^verbatim>\<open>str\<close>.\<close>

definition IPv6Network_init :: "netmask_cache \<Rightarrow> string \<Rightarrow> (exn + ip_network) \<times> netmask_cache" where
  "IPv6Network_init cache address =
     (case split_addr_prefix IPV6LENGTH address of
        Inl e \<Rightarrow> (Inl e, cache)
      | Inr (addr, m) \<Rightarrow>
          (case IPv6Address_of_str addr of
             Inl e \<Rightarrow> (Inl e, cache)
           | Inr na \<Rightarrow>
               (case make_netmask_v6 cache m of
                  (Inl e, cache') \<Rightarrow> (Inl e, cache')
                | (Inr (nm, p), cache') \<Rightarrow>
                    (let packed = ip_int na
                     in if packed AND ip_int nm \<noteq> packed then
                          (bind_exn (IPv6Address_of_int (packed AND ip_int nm)) (\<lambda>na'.
                             Inr (IPv6Network na' nm p)), cache')
                        else (Inr (IPv6Network na nm p), cache')))))"

text \<open>The state of the module that outlives a call: the two netmask caches.\<close>

record lib_state =
  v4_netmask_cache :: netmask_cache
  v6_netmask_cache :: netmask_cache

definition init_state :: lib_state where
  "init_state = \<lparr>v4_netmask_cache = Map.empty, v6_netmask_cache = Map.empty\<rparr>"

text \<open>
  \<^verbatim>\<open>ip_network(address, strict=False)\<close>: IPv4 first, then IPv6; only
  \<^verbatim>\<open>AddressValueError\<close> and \<^verbatim>\<open>NetmaskValueError\<close> lead to the next attempt.
\<close>

definition ip_network :: "lib_state \<Rightarrow> string \<Rightarrow> (exn + ip_network) \<times> lib_state" where
  "ip_network st address =
     (case IPv4Network_init (v4_netmask_cache st) address of
        (r4, c4) \<Rightarrow>
          (let st1 = st\<lparr>v4_netmask_cache := c4\<rparr>
           in case r4 of
                Inr net \<Rightarrow> (Inr net, st1)
              | Inl e \<Rightarrow>
                  if \<not> is_Address_or_Netmask_error e then (Inl e, st1)
                  else (case IPv6Network_init (v6_netmask_cache st1) address of
                          (r6, c6) \<Rightarrow>
                            (let st2 = st1\<lparr>v6_netmask_cache := c6\<rparr>
                             in case r6 of
                                  Inr net \<Rightarrow> (Inr net, st2)
                                | Inl e' \<Rightarrow>
                                    if \<not> is_Address_or_Netmask_error e' then (Inl e', st2)
                                    else (Inl (ValueError (py_repr address
                                            @ '' does not appear to be an IPv4 or IPv6 network'')),
                                          st2)))))"

text \<open>\<^verbatim>\<open>hostmask\<close>, \<^verbatim>\<open>broadcast_address\<close> and \<^verbatim>\<open>num_addresses\<close> of \<^verbatim>\<open>_BaseNetwork\<close>.\<close>

definition hostmask :: "ip_network \<Rightarrow> exn + ip_address" where
  "hostmask net = address_class net (ip_int (netmask net) XOR ALL_ONES (max_prefixlen net))"

definition broadcast_address :: "ip_network \<Rightarrow> exn + ip_address" where
  "broadcast_address net =
     bind_exn (hostmask net) (\<lambda>h. address_class net (ip_int (network_address net) OR ip_int h))"

definition num_addresses :: "ip_network \<Rightarrow> exn + int" where
  "num_addresses net =
     bind_exn (broadcast_address net) (\<lambda>b. Inr (ip_int b - ip_int (network_address net) + 1))"

text \<open>
  \<^verbatim>\<open>next(network.hosts())\<close>. The constructor replaces \<^verbatim>\<open>hosts\<close> by \<^verbatim>\<open>__iter__\<close>
  (from the network address to the broadcast address) when one host bit is left, and by a
  function returning a list, which is no iterator, when none is left. Otherwise \<^verbatim>\<open>hosts\<close>
  yields from the address after the network address up to the broadcast address,
  excluded for IPv4 and included for IPv6. An empty range raises \<^verbatim>\<open>StopIteration\<close>.
\<close>

definition next_hosts :: "ip_network \<Rightarrow> exn + ip_address" where
  "next_hosts net =
     (if prefixlen net = max_prefixlen net - 1 then
        bind_exn (broadcast_address net) (\<lambda>b.
          if ip_int (network_address net) < ip_int b + 1 then
            address_class net (ip_int (network_address net))
          else Inl StopIteration)
      else if prefixlen net = max_prefixlen net then
        Inl (TypeError ([CHR 0x27] @ ''list'' @ [CHR 0x27] @ '' object is not an iterator''))
      else
        bind_exn (broadcast_address net) (\<lambda>b.
          if ip_int (network_address net) + 1 < (if version net = 4 then ip_int b else ip_int b + 1)
          then address_class net (ip_int (network_address net) + 1)
          else Inl StopIteration))"

section \<open>The calculator\<close>

text \<open>
  The value of a field is a \<^verbatim>\<open>str\<close> or an \<^verbatim>\<open>int\<close>. The \<^verbatim>\<open>OrderedDict\<close> of the
  result is the list of its items in insertion order; \<^verbatim>\<open>details[key] = value\<close> replaces
  the value of a key that is present and appends the item otherwise.
\<close>

datatype pyval = Text string | Number int

type_synonym details = "(string \<times> pyval) list"

definition dict_set :: "details \<Rightarrow> string \<Rightarrow> pyval \<Rightarrow> details" where
  "dict_set d k v =
     (if k \<in> set (map fst d) then map (\<lambda>(k', v'). if k' = k then (k', v) else (k', v')) d
      else d @ [(k, v)])"

text \<open>
  The IPv4 block of \<^verbatim>\<open>calculate_subnet_details\<close> (lines 62 to 101). Lines 80 to 85 catch
  \<^verbatim>\<open>StopIteration\<close> only.
\<close>

definition ipv4_details :: "ip_network \<Rightarrow> details \<Rightarrow> exn + details" where
  "ipv4_details network details =
     bind_exn (num_addresses network) (\<lambda>total_hosts.
     let host_bits = 32 - prefixlen network
     in bind_exn
          (if prefixlen network = 31 then
             bind_exn (address_add (network_address network) 1) (\<lambda>b.
             bind_exn (str_address b) (\<lambda>broadcast_str.
             bind_exn (str_address (network_address network)) (\<lambda>na_str.
               Inr (2, broadcast_str, na_str @ '' - '' @ broadcast_str @ '' (RFC 3021 P2P)''))))
           else if prefixlen network = 32 then
             bind_exn (str_address (network_address network)) (\<lambda>broadcast_str.
             bind_exn (str_address (network_address network)) (\<lambda>na_str.
               Inr (1, broadcast_str, na_str)))
           else
             bind_exn (broadcast_address network) (\<lambda>b.
             bind_exn (str_address b) (\<lambda>broadcast_str.
             bind_exn
               (case bind_exn (next_hosts network) (\<lambda>first_host.
                       bind_exn (broadcast_address network) (\<lambda>b'.
                       bind_exn (address_sub b' 1) (\<lambda>last_host.
                       bind_exn (str_address first_host) (\<lambda>first_str.
                       bind_exn (str_address last_host) (\<lambda>last_str.
                         Inr (first_str @ '' - '' @ last_str)))))) of
                  Inl StopIteration \<Rightarrow> Inr ''None''
                | Inl e \<Rightarrow> Inl e
                | Inr host_range \<Rightarrow> Inr host_range)
               (\<lambda>host_range. Inr (total_hosts - 2, broadcast_str, host_range)))))
          (\<lambda>(usable_hosts, broadcast_str, host_range).
             bind_exn (str_address (netmask network)) (\<lambda>netmask_str.
               let details = dict_set details ''Subnet Mask'' (Text netmask_str);
                   details = dict_set details ''Host Bits (h)'' (Number host_bits);
                   details = dict_set details ''Subnet Bits (s)''
                     (Number (if prefixlen network > 24 then prefixlen network mod 8
                              else prefixlen network));
                   details = dict_set details ''Total IP Addresses'' (Number total_hosts);
                   details = dict_set details ''Usable Host Count''
                     (if prefixlen network = 31 then
                        Text (str_int usable_hosts @ '' (RFC 3021 P2P)'')
                      else if prefixlen network = 32 then
                        Text (str_int usable_hosts @ '' (Single Address)'')
                      else Number usable_hosts);
                   details = dict_set details ''Broadcast Address'' (Text broadcast_str);
                   details = dict_set details ''Usable Host Range'' (Text host_range)
               in Inr details)))"

text \<open>The IPv6 block of \<^verbatim>\<open>calculate_subnet_details\<close> (lines 103 to 122).\<close>

definition ipv6_details :: "ip_network \<Rightarrow> details \<Rightarrow> exn + details" where
  "ipv6_details network details =
     (let host_bits = 128 - prefixlen network;
          details = dict_set details ''Subnet Mask Concept'' (Text ''Not Applicable (N/A)'');
          details = dict_set details ''Host Bits'' (Number host_bits);
          details =
            (if host_bits \<ge> 64 then
               dict_set
                 (dict_set details ''Total IP Addresses''
                    (Text (''2^'' @ str_int host_bits @ '' (Standard /64 Subnet)'')))
                 ''Usable Host Count'' (Text ''Effectively infinite'')
             else
               dict_set
                 (dict_set details ''Total IP Addresses'' (Text (''2^'' @ str_int host_bits)))
                 ''Usable Host Count'' (Text (''2^'' @ str_int host_bits)));
          details = dict_set details ''Broadcast Address Concept''
                      (Text ''Not Applicable (Uses Multicast)'');
          details = dict_set details ''Host Range Concept''
                      (Text ''The entire address space after the prefix.'')
      in Inr details)"

text \<open>The body of the \<^verbatim>\<open>try\<close> after \<^verbatim>\<open>ip_network\<close> has returned (lines 47 to 124).\<close>

definition subnet_details :: "string \<Rightarrow> ip_network \<Rightarrow> exn + details" where
  "subnet_details ip_with_cidr network =
     (let details = [];
          details = dict_set details ''Input IP/CIDR'' (Text ip_with_cidr);
          details = dict_set details ''IP Version'' (Text (''IPv'' @ str_int (version network)))
      in bind_exn (str_address (network_address network)) (\<lambda>network_id.
         let details = dict_set details ''Network ID'' (Text network_id)
         in bind_exn
              (if version network = 4 then
                 bind_exn (str_address (network_address network)) (\<lambda>na_str.
                   Inr (dict_set details ''Historical Class'' (Text (get_ip_class na_str))))
               else Inr details)
              (\<lambda>details.
                 let details = dict_set details ''CIDR Prefix''
                                 (Text (''/'' @ str_int (prefixlen network)))
                 in if version network = 4 then ipv4_details network details
                    else if version network = 6 then ipv6_details network details
                    else Inr details)))"

text \<open>
  \<^verbatim>\<open>calculate_subnet_details\<close> (lines 33 to 128): a \<^verbatim>\<open>ValueError\<close> of the body becomes
  the dictionary with the one key \<^verbatim>\<open>Error\<close>; any other exception leaves the function.
\<close>

definition calculate_subnet_details :: "lib_state \<Rightarrow> string \<Rightarrow> (exn + details) \<times> lib_state" where
  "calculate_subnet_details st ip_with_cidr =
     (case ip_network st ip_with_cidr of
        (r, st') \<Rightarrow>
          ((case bind_exn r (subnet_details ip_with_cidr) of
              Inl e \<Rightarrow>
                if is_ValueError e then Inr [(''Error'', Text (''Invalid input: '' @ exn_str e))]
                else Inl e
            | Inr details \<Rightarrow> Inr details),
           st'))"

section \<open>Predicates and names used in the statements\<close>

text \<open>
  A netmask cache is consistent when each entry is what \<^verbatim>\<open>_make_netmask\<close> computes for
  its key. The caches are empty when the module is loaded, and \<^verbatim>\<open>_make_netmask\<close> is the
  only code that writes to them.
\<close>

definition cache_ok :: "(mask_arg \<Rightarrow> exn + ip_address \<times> int) \<Rightarrow> netmask_cache \<Rightarrow> bool" where
  "cache_ok compute cache = (\<forall>arg entry. cache arg = Some entry \<longrightarrow> compute arg = Inr entry)"

definition state_ok :: "lib_state \<Rightarrow> bool" where
  "state_ok st =
     (cache_ok compute_netmask_v4 (v4_netmask_cache st)
      \<and> cache_ok compute_netmask_v6 (v6_netmask_cache st))"

text \<open>The text that \<^verbatim>\<open>_BaseV4._string_from_ip_int\<close> returns when it raises nothing.\<close>

definition dotted_quad :: "int \<Rightarrow> string" where
  "dotted_quad ip = join_str ''.'' (map (\<lambda>b. str_int (of_char b)) (big_endian 4 (nat ip)))"

text \<open>The keys of the result in the order in which lines 49 to 122 insert them.\<close>

definition ipv4_fields :: "string list" where
  "ipv4_fields =
     [''Input IP/CIDR'', ''IP Version'', ''Network ID'', ''Historical Class'', ''CIDR Prefix'',
      ''Subnet Mask'', ''Host Bits (h)'', ''Subnet Bits (s)'', ''Total IP Addresses'',
      ''Usable Host Count'', ''Broadcast Address'', ''Usable Host Range'']"

definition ipv6_fields :: "string list" where
  "ipv6_fields =
     [''Input IP/CIDR'', ''IP Version'', ''Network ID'', ''CIDR Prefix'',
      ''Subnet Mask Concept'', ''Host Bits'', ''Total IP Addresses'', ''Usable Host Count'',
      ''Broadcast Address Concept'', ''Host Range Concept'']"

text \<open>
  The family-specific blocks as the tables of section 4.2 of the specification list them,
  without the row of the historical class, which the specification places before the
  prefix.
\<close>

definition spec_ipv4_block :: "string list" where
  "spec_ipv4_block =
     [''Subnet Mask'', ''Host Bits'', ''Subnet Bits'', ''Total IP Addresses'',
      ''Usable Host Count'', ''Broadcast Address'', ''Usable Host Range'']"

definition spec_ipv6_block :: "string list" where
  "spec_ipv6_block =
     [''Host Bits'', ''Total IP Addresses'', ''Usable Host Count'', ''Subnet Mask Concept'',
      ''Broadcast Address Concept'', ''Host Range Concept'']"

text \<open>\<^verbatim>\<open>key in d\<close> and \<^verbatim>\<open>d[key]\<close> on the list of items.\<close>

definition has_key :: "details \<Rightarrow> string \<Rightarrow> bool" where
  "has_key d k = (k \<in> set (map fst d))"

definition is_error_result :: "details \<Rightarrow> bool" where
  "is_error_result d = has_key d ''Error''"

text \<open>
  What holds of every network that \<^verbatim>\<open>ip_network\<close> returns: the prefix length is within
  the width, the netmask is the one of the prefix length, and the network address has no
  bit outside the netmask.
\<close>

fun wf_network :: "ip_network \<Rightarrow> bool" where
  "wf_network (IPv4Network (IPv4Address na) (IPv4Address nm) p) =
     (0 \<le> p \<and> p \<le> 32 \<and> nm = ip_int_from_prefix IPV4LENGTH p \<and> na AND nm = na)"
| "wf_network (IPv6Network (IPv6Address na sc) (IPv6Address nm sc') p) =
     (0 \<le> p \<and> p \<le> 128 \<and> nm = ip_int_from_prefix IPV6LENGTH p \<and> na AND nm = na)"
| "wf_network net = False"

text \<open>
  The integer of \<^verbatim>\<open>network.broadcast_address\<close> for an IPv4 network with the given
  network address and prefix length: the network address with every host bit set.
\<close>

definition broadcast_int :: "int \<Rightarrow> int \<Rightarrow> int" where
  "broadcast_int na p = na OR (ip_int_from_prefix IPV4LENGTH p XOR ALL_ONES IPV4LENGTH)"

section \<open>Facts about the builtins\<close>

lemma split_str_not_Nil: "split_str c s \<noteq> []"
  by (induction s) (auto split: list.splits)

lemma mapM_exn_Cons_Inr:
  "mapM_exn f (x # xs) = Inr ys \<Longrightarrow>
     \<exists>y ys'. f x = Inr y \<and> mapM_exn f xs = Inr ys' \<and> ys = y # ys'"
  by (auto split: sum.splits)

text \<open>Definitions to unfold when a dotted quad is evaluated.\<close>

lemmas eval_v4_parse =
  ip_int_from_string_v4_def parse_octet_def isascii_and_isdigit_def is_ascii_digit_def
  py_int_def strip_int_space_def int_space_def digits_value_def digit_val_def
  int_max_str_digits_def from_bytes_def bind_exn_def Let_def

section \<open>The historical class\<close>

lemma get_ip_class_labels:
  "get_ip_class s \<in> {''Class A'', ''Class B'', ''Class C'', ''Class D (Multicast)'',
      ''Class E (Reserved)'', ''Special/Reserved'', ''N/A''}"
  unfolding get_ip_class_def by (simp split: sum.splits list.splits)

lemma get_ip_class_NA_iff:
  "get_ip_class s = ''N/A'' \<longleftrightarrow> (\<exists>e. py_int (hd (split_str CHR ''.'' s)) = Inl e)"
proof (cases "split_str CHR ''.'' s")
  case Nil
  then show ?thesis using split_str_not_Nil by blast
next
  case (Cons p ps)
  then show ?thesis
    unfolding get_ip_class_def by (cases "py_int p") simp_all
qed

lemma parse_octet_py_int: "parse_octet p = Inr n \<Longrightarrow> py_int p = Inr n"
  unfolding parse_octet_def bind_exn_def by (auto split: if_splits sum.splits)

lemma v4_first_octet:
  assumes "ip_int_from_string_v4 s = Inr ip"
  shows "\<exists>n. py_int (hd (split_str CHR ''.'' s)) = Inr n"
proof -
  from assms obtain bs where m: "mapM_exn parse_octet (split_str CHR ''.'' s) = Inr bs"
    unfolding ip_int_from_string_v4_def Let_def by (auto split: if_splits sum.splits)
  obtain p ps where sp: "split_str CHR ''.'' s = p # ps"
    using split_str_not_Nil by (cases "split_str CHR ''.'' s") auto
  from m sp obtain y where "parse_octet p = Inr y"
    using mapM_exn_Cons_Inr by fastforce
  then show ?thesis using sp parse_octet_py_int by auto
qed

lemma ip_int_10_0_0_5: "ip_int_from_string_v4 ''10.0.0.5'' = Inr 167772165"
  by (simp add: eval_v4_parse)

text \<open>
  Claim C10. \<^verbatim>\<open>get_ip_class\<close> is total: on every string it returns one of the seven
  labels and raises nothing (every exception of its body is caught and becomes \<^verbatim>\<open>N/A\<close>).
  \<^verbatim>\<open>N/A\<close> is returned exactly when \<^verbatim>\<open>int\<close> refuses the text before the first dot, and
  so never on a string that \<^verbatim>\<open>_ip_int_from_string\<close> accepts as a dotted quad.
\<close>

theorem get_ip_class_total:
  "get_ip_class s \<in> {''Class A'', ''Class B'', ''Class C'', ''Class D (Multicast)'',
      ''Class E (Reserved)'', ''Special/Reserved'', ''N/A''}
   \<and> (get_ip_class s = ''N/A'' \<longleftrightarrow> (\<exists>e. py_int (hd (split_str CHR ''.'' s)) = Inl e))
   \<and> ((\<exists>ip. ip_int_from_string_v4 s = Inr ip) \<longrightarrow> get_ip_class s \<noteq> ''N/A'')"
proof (intro conjI impI)
  show "get_ip_class s \<in> {''Class A'', ''Class B'', ''Class C'', ''Class D (Multicast)'',
      ''Class E (Reserved)'', ''Special/Reserved'', ''N/A''}"
    by (rule get_ip_class_labels)
  show "get_ip_class s = ''N/A'' \<longleftrightarrow> (\<exists>e. py_int (hd (split_str CHR ''.'' s)) = Inl e)"
    by (rule get_ip_class_NA_iff)
  assume "\<exists>ip. ip_int_from_string_v4 s = Inr ip"
  then obtain n where "py_int (hd (split_str CHR ''.'' s)) = Inr n"
    using v4_first_octet by blast
  then show "get_ip_class s \<noteq> ''N/A''"
    by (simp add: get_ip_class_NA_iff)
qed

theorem get_ip_class_total_witness:
  "ip_int_from_string_v4 ''10.0.0.5'' = Inr 167772165
   \<and> get_ip_class ''10.0.0.5'' \<noteq> ''N/A''
   \<and> get_ip_class ''x.0.0.5'' = ''N/A''"
proof -
  have a: "ip_int_from_string_v4 ''10.0.0.5'' = Inr 167772165"
    by (rule ip_int_10_0_0_5)
  then have b: "get_ip_class ''10.0.0.5'' \<noteq> ''N/A''"
    using get_ip_class_total [of "''10.0.0.5''"] by blast
  have "py_int (hd (split_str CHR ''.'' ''x.0.0.5'')) =
          Inl (ValueError (''invalid literal for int() with base 10: '' @ py_repr ''x''))"
    by (simp add: py_int_def strip_int_space_def int_space_def is_ascii_digit_def)
  then have c: "get_ip_class ''x.0.0.5'' = ''N/A''"
    using get_ip_class_total [of "''x.0.0.5''"] by blast
  from a b c show ?thesis by blast
qed

section \<open>The IPv4 parser stays in range\<close>

lemma digit_not_space: "is_ascii_digit c \<Longrightarrow> \<not> int_space c"
  unfolding is_ascii_digit_def int_space_def by auto

lemma dropWhile_hd_id: "xs \<noteq> [] \<Longrightarrow> \<not> P (hd xs) \<Longrightarrow> dropWhile P xs = xs"
  by (cases xs) auto

lemma strip_digits_id:
  assumes "isascii_and_isdigit s"
  shows "strip_int_space s = s"
proof -
  from assms have ne: "s \<noteq> []" and all: "list_all is_ascii_digit s"
    unfolding isascii_and_isdigit_def by auto
  have h: "\<not> int_space (hd s)"
    using ne all by (cases s) (auto simp: digit_not_space)
  have l: "\<not> int_space (hd (rev s))"
    using ne all by (simp add: hd_rev list_all_iff digit_not_space)
  have "dropWhile int_space s = s" using ne h by (rule dropWhile_hd_id)
  moreover have "dropWhile int_space (rev s) = rev s"
    using ne l by (intro dropWhile_hd_id) auto
  ultimately show ?thesis unfolding strip_int_space_def by simp
qed

lemma py_int_digits_nonneg:
  assumes "isascii_and_isdigit s" "py_int s = Inr n"
  shows "0 \<le> n"
proof -
  from assms(1) obtain c r where s: "s = c # r" and c: "is_ascii_digit c"
    unfolding isascii_and_isdigit_def by (cases s) auto
  have cm: "c \<noteq> CHR ''-''" using c unfolding is_ascii_digit_def by auto
  from assms(2) show ?thesis
    unfolding py_int_def strip_digits_id [OF assms(1)] Let_def digits_value_def
    using s cm by (auto split: if_splits)
qed

lemma parse_octet_range:
  assumes "parse_octet p = Inr n"
  shows "0 \<le> n \<and> n \<le> 255"
proof -
  from assms have d: "isascii_and_isdigit p" and i: "py_int p = Inr n" and u: "n \<le> 255"
    unfolding parse_octet_def bind_exn_def by (auto split: if_splits sum.splits)
  from py_int_digits_nonneg [OF d i] u show ?thesis by simp
qed

lemma length4: "length xs = 4 \<Longrightarrow> \<exists>a b c d. xs = [a, b, c, d]"
  by (auto simp: numeral_eq_Suc length_Suc_conv)

lemma ip_int_from_string_v4_range:
  assumes "ip_int_from_string_v4 s = Inr ip"
  shows "0 \<le> ip \<and> ip < 2 ^ 32"
proof -
  from assms obtain bs where len: "length (split_str CHR ''.'' s) = 4"
    and m: "mapM_exn parse_octet (split_str CHR ''.'' s) = Inr bs" and ip: "ip = from_bytes bs"
    unfolding ip_int_from_string_v4_def Let_def by (auto split: if_splits sum.splits)
  from length4 [OF len] obtain a b c d where sp: "split_str CHR ''.'' s = [a, b, c, d]" by blast
  from m sp obtain na nb nc nd where
    "parse_octet a = Inr na" "parse_octet b = Inr nb" "parse_octet c = Inr nc"
    "parse_octet d = Inr nd" and bs: "bs = [na, nb, nc, nd]"
    by (auto split: sum.splits)
  then have "0 \<le> na \<and> na \<le> 255" "0 \<le> nb \<and> nb \<le> 255" "0 \<le> nc \<and> nc \<le> 255"
    "0 \<le> nd \<and> nd \<le> 255"
    using parse_octet_range by blast+
  then show ?thesis unfolding ip bs from_bytes_def by simp
qed

section \<open>Netmasks\<close>

lemma ALL_ONES_mask: "ALL_ONES m = mask (nat m)"
  unfolding ALL_ONES_def by (simp add: mask_eq_exp_minus_1)

lemma ip_int_from_prefix_mask:
  "ip_int_from_prefix m p = mask (nat m) XOR mask (nat m - nat p)"
  unfolding ip_int_from_prefix_def ALL_ONES_mask by (simp add: drop_bit_mask_eq)

lemma bit_ip_int_from_prefix:
  "bit (ip_int_from_prefix m p) i \<longleftrightarrow> nat m - nat p \<le> i \<and> i < nat m"
  unfolding ip_int_from_prefix_mask by (auto simp: bit_simps)

lemma mask_int_less: "(mask n :: int) < 2 ^ n"
  by (simp add: mask_eq_exp_minus_1)

lemma ip_int_from_prefix_range:
  "0 \<le> ip_int_from_prefix m p \<and> ip_int_from_prefix m p \<le> ALL_ONES m"
proof -
  have "mask (nat m - nat p) < (2 :: int) ^ nat m"
    by (rule less_le_trans [OF mask_int_less]) simp
  then have "(mask (nat m) XOR mask (nat m - nat p) :: int) < 2 ^ nat m"
    by (intro XOR_upper) (simp_all add: mask_int_less)
  then show ?thesis
    unfolding ip_int_from_prefix_mask ALL_ONES_def by simp
qed

lemma count_righthand_zero_bits_range:
  "0 \<le> bits \<Longrightarrow> 0 \<le> count_righthand_zero_bits number bits \<and> count_righthand_zero_bits number bits \<le> bits"
  unfolding count_righthand_zero_bits_def bit_length_def by simp

lemma prefix_from_ip_int_range:
  assumes "prefix_from_ip_int IPV4LENGTH ip = Inr p"
  shows "0 \<le> p \<and> p \<le> 32"
proof -
  have "0 \<le> count_righthand_zero_bits ip 32 \<and> count_righthand_zero_bits ip 32 \<le> 32"
    by (rule count_righthand_zero_bits_range) simp
  with assms show ?thesis
    unfolding prefix_from_ip_int_def IPV4LENGTH_def Let_def bind_exn_def
    by (auto split: if_splits sum.splits)
qed

lemma prefix_from_prefix_string_range:
  "prefix_from_prefix_string m s = Inr p \<Longrightarrow> 0 \<le> p \<and> p \<le> m"
  unfolding prefix_from_prefix_string_def report_invalid_netmask_def
  by (auto split: if_splits sum.splits)

lemma prefix_from_ip_string_range:
  "prefix_from_ip_string s = Inr p \<Longrightarrow> 0 \<le> p \<and> p \<le> 32"
  unfolding prefix_from_ip_string_def report_invalid_netmask_def
  using prefix_from_ip_int_range by (auto split: if_splits sum.splits)

lemma IPv4Address_of_int_Inr:
  "0 \<le> n \<Longrightarrow> n \<le> ALL_ONES IPV4LENGTH \<Longrightarrow> IPv4Address_of_int n = Inr (IPv4Address n)"
  unfolding IPv4Address_of_int_def check_int_address_def bind_exn_def by simp

lemma IPv6Address_of_int_Inr:
  "0 \<le> n \<Longrightarrow> n \<le> ALL_ONES IPV6LENGTH \<Longrightarrow> IPv6Address_of_int n = Inr (IPv6Address n None)"
  unfolding IPv6Address_of_int_def check_int_address_def bind_exn_def by simp

lemma compute_netmask_v4_Inr:
  assumes "compute_netmask_v4 arg = Inr (nm, p)"
  shows "0 \<le> p \<and> p \<le> 32 \<and> nm = IPv4Address (ip_int_from_prefix IPV4LENGTH p)"
proof -
  from assms have "0 \<le> p \<and> p \<le> 32 \<and> IPv4Address_of_int (ip_int_from_prefix IPV4LENGTH p) = Inr nm"
    unfolding compute_netmask_v4_def bind_exn_def report_invalid_netmask_def
    by (auto simp: IPV4LENGTH_def split: mask_arg.splits if_splits sum.splits
          dest: prefix_from_prefix_string_range prefix_from_ip_string_range)
  then obtain q where q: "0 \<le> q \<and> q \<le> 32"
    and r: "IPv4Address_of_int (ip_int_from_prefix IPV4LENGTH q) = Inr nm" and pq: "p = q"
    by blast
  from ip_int_from_prefix_range [of IPV4LENGTH q]
  have "IPv4Address_of_int (ip_int_from_prefix IPV4LENGTH q) = Inr (IPv4Address (ip_int_from_prefix IPV4LENGTH q))"
    by (intro IPv4Address_of_int_Inr) simp_all
  with r q pq show ?thesis by simp
qed

lemma compute_netmask_v6_Inr:
  assumes "compute_netmask_v6 arg = Inr (nm, p)"
  shows "0 \<le> p \<and> p \<le> 128 \<and> nm = IPv6Address (ip_int_from_prefix IPV6LENGTH p) None"
proof -
  from assms have "0 \<le> p \<and> p \<le> 128 \<and> IPv6Address_of_int (ip_int_from_prefix IPV6LENGTH p) = Inr nm"
    unfolding compute_netmask_v6_def bind_exn_def report_invalid_netmask_def
    by (auto simp: IPV6LENGTH_def split: mask_arg.splits if_splits sum.splits
          dest: prefix_from_prefix_string_range)
  then obtain q where q: "0 \<le> q \<and> q \<le> 128"
    and r: "IPv6Address_of_int (ip_int_from_prefix IPV6LENGTH q) = Inr nm" and pq: "p = q"
    by blast
  from ip_int_from_prefix_range [of IPV6LENGTH q]
  have "IPv6Address_of_int (ip_int_from_prefix IPV6LENGTH q) = Inr (IPv6Address (ip_int_from_prefix IPV6LENGTH q) None)"
    by (intro IPv6Address_of_int_Inr) simp_all
  with r q pq show ?thesis by simp
qed

section \<open>Which exceptions the parsers raise\<close>

lemma py_int_error: "py_int s = Inl e \<Longrightarrow> is_ValueError e"
  unfolding py_int_def Let_def by (auto split: if_splits)

lemma parse_octet_error: "parse_octet p = Inl e \<Longrightarrow> is_ValueError e"
  unfolding parse_octet_def bind_exn_def
  by (auto split: if_splits sum.splits dest: py_int_error)

lemma mapM_exn_error:
  "mapM_exn f xs = Inl e \<Longrightarrow> \<exists>x \<in> set xs. f x = Inl e"
  by (induction xs) (auto split: sum.splits)

lemma ip_int_from_string_v4_error:
  "ip_int_from_string_v4 s = Inl e \<Longrightarrow> is_AddressValueError e"
  unfolding ip_int_from_string_v4_def Let_def
  by (auto split: if_splits sum.splits dest!: mapM_exn_error parse_octet_error)

lemma IPv4Address_of_str_error:
  "IPv4Address_of_str s = Inl e \<Longrightarrow> is_AddressValueError e"
  unfolding IPv4Address_of_str_def bind_exn_def
  by (auto split: if_splits sum.splits dest: ip_int_from_string_v4_error)

lemma IPv4Address_of_str_Inr:
  "IPv4Address_of_str s = Inr a \<Longrightarrow> \<exists>ip. a = IPv4Address ip \<and> ip_int_from_string_v4 s = Inr ip"
  unfolding IPv4Address_of_str_def bind_exn_def
  by (auto split: if_splits sum.splits)

lemma split_optional_netmask_cases:
  "(\<exists>e. split_optional_netmask s = Inl e \<and> is_AddressValueError e)
   \<or> (\<exists>a. split_optional_netmask s = Inr [a]) \<or> (\<exists>a m. split_optional_netmask s = Inr [a, m])"
proof (cases "split_str CHR ''/'' s")
  case Nil
  then show ?thesis using split_str_not_Nil by blast
next
  case (Cons a r)
  then show ?thesis
    unfolding split_optional_netmask_def Let_def
    by (cases r; cases "tl r") auto
qed

lemma split_addr_prefix_error:
  "split_addr_prefix mx s = Inl e \<Longrightarrow> is_AddressValueError e"
  using split_optional_netmask_cases [of s]
  unfolding split_addr_prefix_def bind_exn_def by auto

lemma prefix_from_prefix_string_error:
  "prefix_from_prefix_string mx s = Inl e \<Longrightarrow> is_NetmaskValueError e"
  unfolding prefix_from_prefix_string_def report_invalid_netmask_def
  by (auto split: if_splits sum.splits dest: py_int_error)

lemma to_bytes_Inr: "0 \<le> n \<Longrightarrow> n < 256 ^ len \<Longrightarrow> to_bytes len n = Inr (big_endian len (nat n))"
  unfolding to_bytes_def by simp

lemma prefix_from_ip_int_error:
  assumes "0 \<le> ip" "ip < 2 ^ 32" "prefix_from_ip_int IPV4LENGTH ip = Inl e"
  shows "is_ValueError e"
proof -
  have "to_bytes 4 ip = Inr (big_endian 4 (nat ip))"
    using assms(1,2) by (intro to_bytes_Inr) simp_all
  with assms(3) show ?thesis
    unfolding prefix_from_ip_int_def Let_def bind_exn_def IPV4LENGTH_def
    by (auto split: if_splits)
qed

lemma xor_ALL_ONES_range:
  assumes "0 \<le> ip" "ip < 2 ^ 32"
  shows "0 \<le> ip XOR ALL_ONES IPV4LENGTH \<and> ip XOR ALL_ONES IPV4LENGTH < 2 ^ 32"
proof -
  have m: "(mask 32 :: int) < 2 ^ 32" by (rule mask_int_less)
  have "ip XOR mask 32 < 2 ^ 32"
    using assms m by (intro XOR_upper)
  then show ?thesis using assms(1) by (simp add: ALL_ONES_mask IPV4LENGTH_def)
qed

lemma prefix_from_ip_string_error:
  assumes "prefix_from_ip_string s = Inl e"
  shows "is_NetmaskValueError e"
proof (cases "ip_int_from_string_v4 s")
  case (Inl e0)
  with assms show ?thesis
    unfolding prefix_from_ip_string_def report_invalid_netmask_def
    by (auto split: if_splits dest: ip_int_from_string_v4_error)
next
  case (Inr ip)
  then have r: "0 \<le> ip" "ip < 2 ^ 32" using ip_int_from_string_v4_range by blast+
  from xor_ALL_ONES_range [OF r]
  have r': "0 \<le> ip XOR ALL_ONES IPV4LENGTH" "ip XOR ALL_ONES IPV4LENGTH < 2 ^ 32" by blast+
  from assms Inr show ?thesis
    unfolding prefix_from_ip_string_def report_invalid_netmask_def
    using prefix_from_ip_int_error [OF r] prefix_from_ip_int_error [OF r']
    by (auto split: if_splits sum.splits)
qed

lemma compute_netmask_v4_error:
  assumes "compute_netmask_v4 arg = Inl e"
  shows "is_NetmaskValueError e"
proof -
  have a: "IPv4Address_of_int (ip_int_from_prefix IPV4LENGTH q) \<noteq> Inl e'" for q e'
    using ip_int_from_prefix_range [of IPV4LENGTH q] by (simp add: IPv4Address_of_int_Inr)
  from assms show ?thesis
    unfolding compute_netmask_v4_def bind_exn_def report_invalid_netmask_def
    using a
    by (auto split: mask_arg.splits if_splits sum.splits
          dest: prefix_from_prefix_string_error prefix_from_ip_string_error)
qed

lemma compute_netmask_v6_error:
  assumes "compute_netmask_v6 arg = Inl e"
  shows "is_NetmaskValueError e"
proof -
  have a: "IPv6Address_of_int (ip_int_from_prefix IPV6LENGTH q) \<noteq> Inl e'" for q e'
    using ip_int_from_prefix_range [of IPV6LENGTH q] by (simp add: IPv6Address_of_int_Inr)
  from assms show ?thesis
    unfolding compute_netmask_v6_def bind_exn_def report_invalid_netmask_def
    using a
    by (auto split: mask_arg.splits if_splits sum.splits
          dest: prefix_from_prefix_string_error)
qed

section \<open>The netmask caches\<close>

lemma cache_ok_empty: "cache_ok compute Map.empty"
  unfolding cache_ok_def by simp

lemma state_ok_init: "state_ok init_state"
  unfolding state_ok_def init_state_def by (simp add: cache_ok_empty)

lemma make_netmask_v4_ok:
  assumes "cache_ok compute_netmask_v4 c"
  shows "fst (make_netmask_v4 c arg) = compute_netmask_v4 arg
         \<and> cache_ok compute_netmask_v4 (snd (make_netmask_v4 c arg))"
  using assms unfolding make_netmask_v4_def cache_ok_def
  by (auto split: option.splits sum.splits)

lemma make_netmask_v6_ok:
  assumes "cache_ok compute_netmask_v6 c"
  shows "fst (make_netmask_v6 c arg) = compute_netmask_v6 arg
         \<and> cache_ok compute_netmask_v6 (snd (make_netmask_v6 c arg))"
  using assms unfolding make_netmask_v6_def cache_ok_def
  by (auto split: option.splits sum.splits)

section \<open>Which exceptions the IPv6 parser raises\<close>

lemma parse_hextet_error: "parse_hextet p = Inl e \<Longrightarrow> is_ValueError e"
  unfolding parse_hextet_def py_int16_def by (auto split: if_splits)

lemma parse_hextets_error: "parse_hextets ip ps = Inl e \<Longrightarrow> is_ValueError e"
  by (induction ps arbitrary: ip) (auto split: sum.splits dest: parse_hextet_error)

lemma find_skip_index_error:
  "find_skip_index s i sk ps = Inl e \<Longrightarrow> is_AddressValueError e"
  by (induction ps arbitrary: i sk) (auto split: if_splits)

lemma ip_int_from_string_v6_error:
  assumes "ip_int_from_string_v6 s = Inl e"
  shows "is_AddressValueError e"
  using assms unfolding ip_int_from_string_v6_def Let_def bind_exn_def
  by (auto split: if_splits sum.splits option.splits prod.splits
        dest: IPv4Address_of_str_error find_skip_index_error parse_hextets_error)

lemma split_scope_id_error: "split_scope_id s = Inl e \<Longrightarrow> is_AddressValueError e"
  unfolding split_scope_id_def by (auto split: prod.splits if_splits)

lemma IPv6Address_of_str_error:
  "IPv6Address_of_str s = Inl e \<Longrightarrow> is_AddressValueError e"
  unfolding IPv6Address_of_str_def bind_exn_def
  by (auto split: if_splits sum.splits prod.splits
        dest: split_scope_id_error ip_int_from_string_v6_error)

lemma IPv6Address_of_str_Inr:
  "IPv6Address_of_str s = Inr a \<Longrightarrow> \<exists>ip sc. a = IPv6Address ip sc"
  unfolding IPv6Address_of_str_def bind_exn_def
  by (auto split: if_splits sum.splits prod.splits)

section \<open>The network constructors\<close>

lemma masked_range:
  fixes a nm :: int
  assumes "0 \<le> nm" "nm \<le> M"
  shows "0 \<le> a AND nm \<and> a AND nm \<le> M"
proof -
  have "a AND nm \<le> nm" using assms(1) by (rule AND_upper2)
  with assms show ?thesis by simp
qed

lemma IPv4Network_init_eq:
  assumes "cache_ok compute_netmask_v4 c"
  shows "fst (IPv4Network_init c s) =
           (case split_addr_prefix IPV4LENGTH s of
              Inl e \<Rightarrow> Inl e
            | Inr (addr, m) \<Rightarrow>
                (case IPv4Address_of_str addr of
                   Inl e \<Rightarrow> Inl e
                 | Inr a \<Rightarrow>
                     (case compute_netmask_v4 m of
                        Inl e \<Rightarrow> Inl e
                      | Inr (nm, p) \<Rightarrow>
                          Inr (IPv4Network (IPv4Address (ip_int a AND ip_int nm)) nm p))))
         \<and> cache_ok compute_netmask_v4 (snd (IPv4Network_init c s))"
proof (cases "split_addr_prefix IPV4LENGTH s")
  case (Inl e)
  then show ?thesis using assms unfolding IPv4Network_init_def by simp
next
  case (Inr am)
  obtain addr m where am: "am = (addr, m)" by (cases am)
  show ?thesis
  proof (cases "IPv4Address_of_str addr")
    case (Inl e)
    then show ?thesis using assms Inr am unfolding IPv4Network_init_def by simp
  next
    case a: (Inr a)
    then obtain ai where ai: "a = IPv4Address ai" using IPv4Address_of_str_Inr by blast
    obtain r c' where mk: "make_netmask_v4 c m = (r, c')" by (cases "make_netmask_v4 c m")
    from make_netmask_v4_ok [OF assms, of m] mk
    have r: "r = compute_netmask_v4 m" and c': "cache_ok compute_netmask_v4 c'" by simp_all
    show ?thesis
    proof (cases r)
      case (Inl e)
      then show ?thesis
        using Inr am a mk r c' unfolding IPv4Network_init_def by simp
    next
      case nmp: (Inr nmp)
      obtain nm p where nmp': "nmp = (nm, p)" by (cases nmp)
      from nmp nmp' r have cmp: "compute_netmask_v4 m = Inr (nm, p)" by simp
      from compute_netmask_v4_Inr [OF cmp]
      have nm: "nm = IPv4Address (ip_int_from_prefix IPV4LENGTH p)" by simp
      from ip_int_from_prefix_range [of IPV4LENGTH p]
      have "0 \<le> ai AND ip_int_from_prefix IPV4LENGTH p
            \<and> ai AND ip_int_from_prefix IPV4LENGTH p \<le> ALL_ONES IPV4LENGTH"
        by (intro masked_range) simp_all
      then have of_int: "IPv4Address_of_int (ai AND ip_int_from_prefix IPV4LENGTH p)
                  = Inr (IPv4Address (ai AND ip_int_from_prefix IPV4LENGTH p))"
        by (intro IPv4Address_of_int_Inr) simp_all
      show ?thesis
        using Inr am a ai mk nmp nmp' cmp nm c' of_int
        unfolding IPv4Network_init_def by (simp add: Let_def bind_exn_def)
    qed
  qed
qed

lemma IPv6Network_init_eq:
  assumes "cache_ok compute_netmask_v6 c"
  shows "fst (IPv6Network_init c s) =
           (case split_addr_prefix IPV6LENGTH s of
              Inl e \<Rightarrow> Inl e
            | Inr (addr, m) \<Rightarrow>
                (case IPv6Address_of_str addr of
                   Inl e \<Rightarrow> Inl e
                 | Inr a \<Rightarrow>
                     (case compute_netmask_v6 m of
                        Inl e \<Rightarrow> Inl e
                      | Inr (nm, p) \<Rightarrow>
                          Inr (IPv6Network
                                 (if ip_int a AND ip_int nm \<noteq> ip_int a
                                  then IPv6Address (ip_int a AND ip_int nm) None else a)
                                 nm p))))
         \<and> cache_ok compute_netmask_v6 (snd (IPv6Network_init c s))"
proof (cases "split_addr_prefix IPV6LENGTH s")
  case (Inl e)
  then show ?thesis using assms unfolding IPv6Network_init_def by simp
next
  case (Inr am)
  obtain addr m where am: "am = (addr, m)" by (cases am)
  show ?thesis
  proof (cases "IPv6Address_of_str addr")
    case (Inl e)
    then show ?thesis using assms Inr am unfolding IPv6Network_init_def by simp
  next
    case a: (Inr a)
    obtain r c' where mk: "make_netmask_v6 c m = (r, c')" by (cases "make_netmask_v6 c m")
    from make_netmask_v6_ok [OF assms, of m] mk
    have r: "r = compute_netmask_v6 m" and c': "cache_ok compute_netmask_v6 c'" by simp_all
    show ?thesis
    proof (cases r)
      case (Inl e)
      then show ?thesis
        using Inr am a mk r c' unfolding IPv6Network_init_def by simp
    next
      case nmp: (Inr nmp)
      obtain nm p where nmp': "nmp = (nm, p)" by (cases nmp)
      from nmp nmp' r have cmp: "compute_netmask_v6 m = Inr (nm, p)" by simp
      from compute_netmask_v6_Inr [OF cmp]
      have nm: "nm = IPv6Address (ip_int_from_prefix IPV6LENGTH p) None" by simp
      from ip_int_from_prefix_range [of IPV6LENGTH p]
      have "0 \<le> ip_int a AND ip_int_from_prefix IPV6LENGTH p
            \<and> ip_int a AND ip_int_from_prefix IPV6LENGTH p \<le> ALL_ONES IPV6LENGTH"
        by (intro masked_range) simp_all
      then have of_int: "IPv6Address_of_int (ip_int a AND ip_int_from_prefix IPV6LENGTH p)
                  = Inr (IPv6Address (ip_int a AND ip_int_from_prefix IPV6LENGTH p) None)"
        by (intro IPv6Address_of_int_Inr) simp_all
      show ?thesis
        using Inr am a mk nmp nmp' cmp nm c' of_int
        unfolding IPv6Network_init_def by (simp add: Let_def bind_exn_def)
    qed
  qed
qed

lemma AddressValueError_class: "is_AddressValueError e \<Longrightarrow> is_Address_or_Netmask_error e"
  by (cases e) auto

lemma NetmaskValueError_class: "is_NetmaskValueError e \<Longrightarrow> is_Address_or_Netmask_error e"
  by (cases e) auto

lemma Address_or_Netmask_is_ValueError: "is_Address_or_Netmask_error e \<Longrightarrow> is_ValueError e"
  by (cases e) auto

lemma IPv4Network_init_pure:
  assumes "cache_ok compute_netmask_v4 c"
  shows "fst (IPv4Network_init c s) = fst (IPv4Network_init Map.empty s)"
  using IPv4Network_init_eq [OF assms, of s] IPv4Network_init_eq [OF cache_ok_empty, of s]
  by simp

lemma IPv6Network_init_pure:
  assumes "cache_ok compute_netmask_v6 c"
  shows "fst (IPv6Network_init c s) = fst (IPv6Network_init Map.empty s)"
  using IPv6Network_init_eq [OF assms, of s] IPv6Network_init_eq [OF cache_ok_empty, of s]
  by simp

lemma IPv4Network_init_error:
  assumes "cache_ok compute_netmask_v4 c" "fst (IPv4Network_init c s) = Inl e"
  shows "is_Address_or_Netmask_error e"
  using assms(2) unfolding IPv4Network_init_eq [OF assms(1), THEN conjunct1]
  by (auto split: sum.splits prod.splits
        dest: split_addr_prefix_error IPv4Address_of_str_error compute_netmask_v4_error
        intro: AddressValueError_class NetmaskValueError_class)

lemma IPv6Network_init_error:
  assumes "cache_ok compute_netmask_v6 c" "fst (IPv6Network_init c s) = Inl e"
  shows "is_Address_or_Netmask_error e"
  using assms(2) unfolding IPv6Network_init_eq [OF assms(1), THEN conjunct1]
  by (auto split: sum.splits prod.splits
        dest: split_addr_prefix_error IPv6Address_of_str_error compute_netmask_v6_error
        intro: AddressValueError_class NetmaskValueError_class)

lemma and_and_same: "(a AND b) AND b = a AND (b :: int)"
  by (simp add: and.assoc)

lemma IPv4Network_init_wf:
  assumes "cache_ok compute_netmask_v4 c" "fst (IPv4Network_init c s) = Inr net"
  shows "wf_network net \<and> version net = 4"
  using assms(2) unfolding IPv4Network_init_eq [OF assms(1), THEN conjunct1]
  by (auto split: sum.splits prod.splits dest!: compute_netmask_v4_Inr simp: and_and_same)

lemma IPv6Network_init_wf:
  assumes "cache_ok compute_netmask_v6 c" "fst (IPv6Network_init c s) = Inr net"
  shows "wf_network net \<and> version net = 6"
  using assms(2) unfolding IPv6Network_init_eq [OF assms(1), THEN conjunct1]
  by (auto split: sum.splits prod.splits if_splits
        dest!: compute_netmask_v6_Inr IPv6Address_of_str_Inr simp: and_and_same)

section \<open>\<^verbatim>\<open>ip_network\<close> without the caches\<close>

lemma ip_network_eq:
  assumes "state_ok st"
  shows "fst (ip_network st s) =
           (case fst (IPv4Network_init Map.empty s) of
              Inr net \<Rightarrow> Inr net
            | Inl e \<Rightarrow>
                (case fst (IPv6Network_init Map.empty s) of
                   Inr net \<Rightarrow> Inr net
                 | Inl e' \<Rightarrow>
                     Inl (ValueError (py_repr s
                            @ '' does not appear to be an IPv4 or IPv6 network''))))
         \<and> state_ok (snd (ip_network st s))"
proof -
  from assms have c4: "cache_ok compute_netmask_v4 (v4_netmask_cache st)"
    and c6: "cache_ok compute_netmask_v6 (v6_netmask_cache st)"
    unfolding state_ok_def by simp_all
  obtain r4 c4' where i4: "IPv4Network_init (v4_netmask_cache st) s = (r4, c4')"
    by (cases "IPv4Network_init (v4_netmask_cache st) s")
  obtain r6 c6' where i6: "IPv6Network_init (v6_netmask_cache st) s = (r6, c6')"
    by (cases "IPv6Network_init (v6_netmask_cache st) s")
  from IPv4Network_init_eq [OF c4, of s] i4 have ok4: "cache_ok compute_netmask_v4 c4'" by simp
  from IPv6Network_init_eq [OF c6, of s] i6 have ok6: "cache_ok compute_netmask_v6 c6'" by simp
  from IPv4Network_init_pure [OF c4, of s] i4
  have p4: "fst (IPv4Network_init Map.empty s) = r4" by simp
  from IPv6Network_init_pure [OF c6, of s] i6
  have p6: "fst (IPv6Network_init Map.empty s) = r6" by simp
  have e4: "is_Address_or_Netmask_error e" if "r4 = Inl e" for e
    using IPv4Network_init_error [OF c4, of s e] i4 that by simp
  have e6: "is_Address_or_Netmask_error e" if "r6 = Inl e" for e
    using IPv6Network_init_error [OF c6, of s e] i6 that by simp
  show ?thesis
    unfolding ip_network_def p4 p6 state_ok_def
    using i4 i6 ok4 ok6 c6 e4 e6
    by (auto simp: Let_def split: sum.splits)
qed

lemma ip_network_pure:
  assumes "state_ok st"
  shows "fst (ip_network st s) = fst (ip_network init_state s)"
  using ip_network_eq [OF assms, of s] ip_network_eq [OF state_ok_init, of s] by simp

lemma ip_network_wf:
  assumes "state_ok st" "fst (ip_network st s) = Inr net"
  shows "wf_network net"
  using assms(2) unfolding ip_network_eq [OF assms(1), THEN conjunct1]
  using IPv4Network_init_wf [OF cache_ok_empty] IPv6Network_init_wf [OF cache_ok_empty]
  by (auto split: sum.splits)

lemma ip_network_error:
  assumes "state_ok st" "fst (ip_network st s) = Inl e"
  shows "e = ValueError (py_repr s @ '' does not appear to be an IPv4 or IPv6 network'')"
  using assms(2) unfolding ip_network_eq [OF assms(1), THEN conjunct1]
  by (auto split: sum.splits)

section \<open>Rendering and arithmetic on a well-formed IPv4 network\<close>

lemma ALL_ONES_v4: "ALL_ONES IPV4LENGTH = 4294967295"
  unfolding ALL_ONES_def IPV4LENGTH_def by simp

lemma string_from_ip_int_v4_Inr:
  assumes "0 \<le> ip" "ip \<le> ALL_ONES IPV4LENGTH"
  shows "string_from_ip_int_v4 ip = Inr (dotted_quad ip)"
proof -
  have "to_bytes 4 ip = Inr (big_endian 4 (nat ip))"
    using assms by (intro to_bytes_Inr) (simp_all add: ALL_ONES_v4)
  then show ?thesis
    unfolding string_from_ip_int_v4_def dotted_quad_def bind_exn_def by simp
qed

lemma v4_netmask_range:
  "0 \<le> ip_int_from_prefix IPV4LENGTH p \<and> ip_int_from_prefix IPV4LENGTH p \<le> ALL_ONES IPV4LENGTH"
  by (rule ip_int_from_prefix_range)

lemma v4_network_address_range:
  assumes "na AND ip_int_from_prefix IPV4LENGTH p = na"
  shows "0 \<le> na \<and> na \<le> ALL_ONES IPV4LENGTH"
  using masked_range [of "ip_int_from_prefix IPV4LENGTH p" "ALL_ONES IPV4LENGTH" na]
    v4_netmask_range [of p] assms by simp

lemma v4_hostmask_range:
  "0 \<le> ip_int_from_prefix IPV4LENGTH p XOR ALL_ONES IPV4LENGTH
   \<and> ip_int_from_prefix IPV4LENGTH p XOR ALL_ONES IPV4LENGTH \<le> ALL_ONES IPV4LENGTH"
  using xor_ALL_ONES_range [of "ip_int_from_prefix IPV4LENGTH p"] v4_netmask_range [of p]
  by (simp add: ALL_ONES_v4)

lemma v4_broadcast_range:
  assumes "na AND ip_int_from_prefix IPV4LENGTH p = na"
  shows "0 \<le> na OR (ip_int_from_prefix IPV4LENGTH p XOR ALL_ONES IPV4LENGTH)
         \<and> na OR (ip_int_from_prefix IPV4LENGTH p XOR ALL_ONES IPV4LENGTH) \<le> ALL_ONES IPV4LENGTH"
proof -
  let ?h = "ip_int_from_prefix IPV4LENGTH p XOR ALL_ONES IPV4LENGTH"
  from v4_network_address_range [OF assms] have na: "0 \<le> na" "na < 2 ^ 32"
    by (simp_all add: ALL_ONES_v4)
  from v4_hostmask_range [of p] have h: "0 \<le> ?h" "?h < 2 ^ 32"
    by (simp_all add: ALL_ONES_v4)
  have "na OR ?h < 2 ^ 32" using na(1) na(2) h(2) by (rule OR_upper)
  then show ?thesis using na(1) h(1) by (simp add: ALL_ONES_v4)
qed

lemma hostmask_v4:
  "hostmask (IPv4Network (IPv4Address na) (IPv4Address (ip_int_from_prefix IPV4LENGTH p)) p)
     = Inr (IPv4Address (ip_int_from_prefix IPV4LENGTH p XOR ALL_ONES IPV4LENGTH))"
  unfolding hostmask_def using v4_hostmask_range [of p]
  by (simp add: IPv4Address_of_int_Inr)

lemma broadcast_address_v4:
  assumes "na AND ip_int_from_prefix IPV4LENGTH p = na"
  shows "broadcast_address (IPv4Network (IPv4Address na) (IPv4Address (ip_int_from_prefix IPV4LENGTH p)) p)
     = Inr (IPv4Address (na OR (ip_int_from_prefix IPV4LENGTH p XOR ALL_ONES IPV4LENGTH)))"
  unfolding broadcast_address_def hostmask_v4 bind_exn_def
  using v4_broadcast_range [OF assms] by (simp add: IPv4Address_of_int_Inr)

lemma num_addresses_v4:
  assumes "na AND ip_int_from_prefix IPV4LENGTH p = na"
  shows "num_addresses (IPv4Network (IPv4Address na) (IPv4Address (ip_int_from_prefix IPV4LENGTH p)) p)
     = Inr ((na OR (ip_int_from_prefix IPV4LENGTH p XOR ALL_ONES IPV4LENGTH)) - na + 1)"
  unfolding num_addresses_def broadcast_address_v4 [OF assms] bind_exn_def by simp

lemma v4_slash31_even:
  assumes "na AND ip_int_from_prefix IPV4LENGTH 31 = na"
  shows "even na"
proof -
  have "\<not> bit (ip_int_from_prefix IPV4LENGTH 31) 0"
    by (simp add: bit_ip_int_from_prefix IPV4LENGTH_def)
  then have "\<not> bit (na AND ip_int_from_prefix IPV4LENGTH 31) 0"
    by (simp add: bit_and_iff)
  with assms have "\<not> bit na 0" by simp
  then show ?thesis by (simp add: bit_0)
qed

lemma v4_slash31_succ_range:
  assumes "na AND ip_int_from_prefix IPV4LENGTH 31 = na"
  shows "0 \<le> na + 1 \<and> na + 1 \<le> ALL_ONES IPV4LENGTH"
proof -
  from v4_network_address_range [OF assms] have r: "0 \<le> na" "na \<le> 4294967295"
    by (simp_all add: ALL_ONES_v4)
  from v4_slash31_even [OF assms] have "na \<noteq> 4294967295" by auto
  with r show ?thesis by (simp add: ALL_ONES_v4)
qed

lemma bind_exn_Inr [simp]: "bind_exn (Inr x) f = f x"
  unfolding bind_exn_def by simp

lemma bind_exn_Inl [simp]: "bind_exn (Inl e) f = Inl e"
  unfolding bind_exn_def by simp

lemma dict_set_new: "k \<notin> set (map fst d) \<Longrightarrow> dict_set d k v = d @ [(k, v)]"
  unfolding dict_set_def by simp

lemma str_int_small:
  "str_int 1 = ''1''" "str_int 2 = ''2''" "str_int 4 = ''4''" "str_int 6 = ''6''"
  by (simp_all add: str_int_def nat_digits.simps digit_char_def)

lemma v4_facts:
  assumes wf: "na AND ip_int_from_prefix IPV4LENGTH p = na"
  shows "str_address (IPv4Address na) = Inr (dotted_quad na)"
    and "str_address (IPv4Address (ip_int_from_prefix IPV4LENGTH p))
           = Inr (dotted_quad (ip_int_from_prefix IPV4LENGTH p))"
    and "broadcast_address (IPv4Network (IPv4Address na)
           (IPv4Address (ip_int_from_prefix IPV4LENGTH p)) p) = Inr (IPv4Address (broadcast_int na p))"
    and "num_addresses (IPv4Network (IPv4Address na)
           (IPv4Address (ip_int_from_prefix IPV4LENGTH p)) p) = Inr (broadcast_int na p - na + 1)"
    and "str_address (IPv4Address (broadcast_int na p)) = Inr (dotted_quad (broadcast_int na p))"
proof -
  show "str_address (IPv4Address na) = Inr (dotted_quad na)"
    using v4_network_address_range [OF wf] by (simp add: string_from_ip_int_v4_Inr)
  show "str_address (IPv4Address (ip_int_from_prefix IPV4LENGTH p))
           = Inr (dotted_quad (ip_int_from_prefix IPV4LENGTH p))"
    using v4_netmask_range [of p] by (simp add: string_from_ip_int_v4_Inr)
  show "broadcast_address (IPv4Network (IPv4Address na)
           (IPv4Address (ip_int_from_prefix IPV4LENGTH p)) p) = Inr (IPv4Address (broadcast_int na p))"
    unfolding broadcast_int_def by (rule broadcast_address_v4 [OF wf])
  show "num_addresses (IPv4Network (IPv4Address na)
           (IPv4Address (ip_int_from_prefix IPV4LENGTH p)) p) = Inr (broadcast_int na p - na + 1)"
    unfolding broadcast_int_def by (rule num_addresses_v4 [OF wf])
  show "str_address (IPv4Address (broadcast_int na p)) = Inr (dotted_quad (broadcast_int na p))"
    unfolding broadcast_int_def using v4_broadcast_range [OF wf]
    by (simp add: string_from_ip_int_v4_Inr)
qed

lemma ipv4_details_31:
  assumes wf: "na AND ip_int_from_prefix IPV4LENGTH 31 = na"
  shows "ipv4_details (IPv4Network (IPv4Address na)
           (IPv4Address (ip_int_from_prefix IPV4LENGTH 31)) 31) d =
         Inr (dict_set (dict_set (dict_set (dict_set (dict_set (dict_set (dict_set d
           ''Subnet Mask'' (Text (dotted_quad (ip_int_from_prefix IPV4LENGTH 31))))
           ''Host Bits (h)'' (Number 1))
           ''Subnet Bits (s)'' (Number 7))
           ''Total IP Addresses'' (Number (broadcast_int na 31 - na + 1)))
           ''Usable Host Count'' (Text ''2 (RFC 3021 P2P)''))
           ''Broadcast Address'' (Text (dotted_quad (na + 1))))
           ''Usable Host Range''
             (Text (dotted_quad na @ '' - '' @ dotted_quad (na + 1) @ '' (RFC 3021 P2P)'')))"
proof -
  from v4_slash31_succ_range [OF wf]
  have add: "IPv4Address_of_int (na + 1) = Inr (IPv4Address (na + 1))"
    and str: "str_address (IPv4Address (na + 1)) = Inr (dotted_quad (na + 1))"
    by (simp_all add: IPv4Address_of_int_Inr string_from_ip_int_v4_Inr)
  show ?thesis
    unfolding ipv4_details_def
    apply (simp add: v4_facts [OF wf] add str Let_def str_int_small del: str_address.simps)
    done
qed

lemma subnet_details_v4_31:
  assumes wf: "na AND ip_int_from_prefix IPV4LENGTH 31 = na"
  shows "subnet_details s (IPv4Network (IPv4Address na)
           (IPv4Address (ip_int_from_prefix IPV4LENGTH 31)) 31) =
         Inr [(''Input IP/CIDR'', Text s), (''IP Version'', Text ''IPv4''),
              (''Network ID'', Text (dotted_quad na)),
              (''Historical Class'', Text (get_ip_class (dotted_quad na))),
              (''CIDR Prefix'', Text (''/'' @ str_int 31)),
              (''Subnet Mask'', Text (dotted_quad (ip_int_from_prefix IPV4LENGTH 31))),
              (''Host Bits (h)'', Number 1), (''Subnet Bits (s)'', Number 7),
              (''Total IP Addresses'', Number (broadcast_int na 31 - na + 1)),
              (''Usable Host Count'', Text ''2 (RFC 3021 P2P)''),
              (''Broadcast Address'', Text (dotted_quad (na + 1))),
              (''Usable Host Range'',
                 Text (dotted_quad na @ '' - '' @ dotted_quad (na + 1) @ '' (RFC 3021 P2P)''))]"
  unfolding subnet_details_def
  apply (simp add: v4_facts [OF wf] Let_def str_int_small dict_set_new
        del: str_address.simps)
  apply (simp only: ipv4_details_31 [OF wf])
  apply (simp add: dict_set_new)
  done
lemma ipv4_details_32:
  assumes wf: "na AND ip_int_from_prefix IPV4LENGTH 32 = na"
  shows "ipv4_details (IPv4Network (IPv4Address na)
           (IPv4Address (ip_int_from_prefix IPV4LENGTH 32)) 32) d =
         Inr (dict_set (dict_set (dict_set (dict_set (dict_set (dict_set (dict_set d
           ''Subnet Mask'' (Text (dotted_quad (ip_int_from_prefix IPV4LENGTH 32))))
           ''Host Bits (h)'' (Number 0))
           ''Subnet Bits (s)'' (Number 0))
           ''Total IP Addresses'' (Number (broadcast_int na 32 - na + 1)))
           ''Usable Host Count'' (Text ''1 (Single Address)''))
           ''Broadcast Address'' (Text (dotted_quad na)))
           ''Usable Host Range'' (Text (dotted_quad na)))"
  unfolding ipv4_details_def
  by (simp add: v4_facts [OF wf] Let_def str_int_small del: str_address.simps)

lemma subnet_details_v4_32:
  assumes wf: "na AND ip_int_from_prefix IPV4LENGTH 32 = na"
  shows "subnet_details s (IPv4Network (IPv4Address na)
           (IPv4Address (ip_int_from_prefix IPV4LENGTH 32)) 32) =
         Inr [(''Input IP/CIDR'', Text s), (''IP Version'', Text ''IPv4''),
              (''Network ID'', Text (dotted_quad na)),
              (''Historical Class'', Text (get_ip_class (dotted_quad na))),
              (''CIDR Prefix'', Text (''/'' @ str_int 32)),
              (''Subnet Mask'', Text (dotted_quad (ip_int_from_prefix IPV4LENGTH 32))),
              (''Host Bits (h)'', Number 0), (''Subnet Bits (s)'', Number 0),
              (''Total IP Addresses'', Number (broadcast_int na 32 - na + 1)),
              (''Usable Host Count'', Text ''1 (Single Address)''),
              (''Broadcast Address'', Text (dotted_quad na)),
              (''Usable Host Range'', Text (dotted_quad na))]"
  unfolding subnet_details_def
  apply (simp add: v4_facts [OF wf] Let_def str_int_small dict_set_new
        del: str_address.simps)
  apply (simp only: ipv4_details_32 [OF wf])
  apply (simp add: dict_set_new)
  done

lemma next_hosts_v4:
  assumes wf: "na AND ip_int_from_prefix IPV4LENGTH p = na" and p: "p \<noteq> 31" "p \<noteq> 32"
  shows "next_hosts (IPv4Network (IPv4Address na)
           (IPv4Address (ip_int_from_prefix IPV4LENGTH p)) p) =
         (if na + 1 < broadcast_int na p then Inr (IPv4Address (na + 1)) else Inl StopIteration)"
proof -
  from v4_network_address_range [OF wf] v4_broadcast_range [OF wf]
  have "na + 1 < broadcast_int na p \<Longrightarrow> 0 \<le> na + 1 \<and> na + 1 \<le> ALL_ONES IPV4LENGTH"
    unfolding broadcast_int_def by simp
  then show ?thesis
    unfolding next_hosts_def using p
    by (simp add: v4_facts [OF wf] IPV4LENGTH_def [symmetric] IPv4Address_of_int_Inr)
        (simp add: IPV4LENGTH_def)
qed

lemma ipv4_details_other:
  assumes wf: "na AND ip_int_from_prefix IPV4LENGTH p = na" and p: "p \<noteq> 31" "p \<noteq> 32"
  shows "ipv4_details (IPv4Network (IPv4Address na)
           (IPv4Address (ip_int_from_prefix IPV4LENGTH p)) p) d =
         Inr (dict_set (dict_set (dict_set (dict_set (dict_set (dict_set (dict_set d
           ''Subnet Mask'' (Text (dotted_quad (ip_int_from_prefix IPV4LENGTH p))))
           ''Host Bits (h)'' (Number (32 - p)))
           ''Subnet Bits (s)'' (Number (if p > 24 then p mod 8 else p)))
           ''Total IP Addresses'' (Number (broadcast_int na p - na + 1)))
           ''Usable Host Count'' (Number (broadcast_int na p - na + 1 - 2)))
           ''Broadcast Address'' (Text (dotted_quad (broadcast_int na p))))
           ''Usable Host Range''
             (Text (if na + 1 < broadcast_int na p
                    then dotted_quad (na + 1) @ '' - '' @ dotted_quad (broadcast_int na p - 1)
                    else ''None'')))"
proof (cases "na + 1 < broadcast_int na p")
  case True
  from v4_network_address_range [OF wf] v4_broadcast_range [OF wf] True
  have r1: "0 \<le> na + 1 \<and> na + 1 \<le> ALL_ONES IPV4LENGTH"
    and r2: "0 \<le> broadcast_int na p - 1 \<and> broadcast_int na p - 1 \<le> ALL_ONES IPV4LENGTH"
    unfolding broadcast_int_def by simp_all
  have s1: "str_address (IPv4Address (na + 1)) = Inr (dotted_quad (na + 1))"
    using r1 by (simp add: string_from_ip_int_v4_Inr)
  have s2: "str_address (IPv4Address (broadcast_int na p - 1))
              = Inr (dotted_quad (broadcast_int na p - 1))"
    using r2 by (simp add: string_from_ip_int_v4_Inr)
  have sub: "address_sub (IPv4Address (broadcast_int na p)) 1
              = Inr (IPv4Address (broadcast_int na p - 1))"
    unfolding address_sub_def using r2 by (simp add: IPv4Address_of_int_Inr)
  show ?thesis
    unfolding ipv4_details_def
    using True p
    by (simp add: v4_facts [OF wf] next_hosts_v4 [OF wf p] s1 s2 sub Let_def
          del: str_address.simps)
next
  case False
  show ?thesis
    unfolding ipv4_details_def
    using False p
    by (simp add: v4_facts [OF wf] next_hosts_v4 [OF wf p] Let_def
          del: str_address.simps)
qed

lemma subnet_details_v4_other:
  assumes wf: "na AND ip_int_from_prefix IPV4LENGTH p = na" and p: "p \<noteq> 31" "p \<noteq> 32"
  shows "subnet_details s (IPv4Network (IPv4Address na)
           (IPv4Address (ip_int_from_prefix IPV4LENGTH p)) p) =
         Inr [(''Input IP/CIDR'', Text s), (''IP Version'', Text ''IPv4''),
              (''Network ID'', Text (dotted_quad na)),
              (''Historical Class'', Text (get_ip_class (dotted_quad na))),
              (''CIDR Prefix'', Text (''/'' @ str_int p)),
              (''Subnet Mask'', Text (dotted_quad (ip_int_from_prefix IPV4LENGTH p))),
              (''Host Bits (h)'', Number (32 - p)),
              (''Subnet Bits (s)'', Number (if p > 24 then p mod 8 else p)),
              (''Total IP Addresses'', Number (broadcast_int na p - na + 1)),
              (''Usable Host Count'', Number (broadcast_int na p - na + 1 - 2)),
              (''Broadcast Address'', Text (dotted_quad (broadcast_int na p))),
              (''Usable Host Range'',
                 Text (if na + 1 < broadcast_int na p
                       then dotted_quad (na + 1) @ '' - '' @ dotted_quad (broadcast_int na p - 1)
                       else ''None''))]"
  unfolding subnet_details_def
  apply (simp add: v4_facts [OF wf] Let_def str_int_small dict_set_new
        del: str_address.simps)
  apply (simp only: ipv4_details_other [OF wf p])
  apply (simp add: dict_set_new)
  done

section \<open>Rendering an IPv6 address raises nothing\<close>

lemma digit_char_hex: "k < 16 \<Longrightarrow> is_hex_digit (digit_char k)"
proof -
  assume "k < 16"
  then have "''0123456789abcdef'' ! k \<in> set ''0123456789abcdef''"
    by (intro nth_mem) simp
  then show ?thesis unfolding digit_char_def is_hex_digit_def by auto
qed

lemma nat_digits_hex: "list_all is_hex_digit (nat_digits 16 n)"
proof (induction "16 :: nat" n rule: nat_digits.induct)
  case (1 n)
  show ?case
  proof (cases "n < 16")
    case True
    then show ?thesis by (subst nat_digits.simps) (simp add: digit_char_hex)
  next
    case False
    with 1 have "list_all is_hex_digit (nat_digits 16 (n div 16))" by simp
    with False show ?thesis by (subst nat_digits.simps) (simp add: digit_char_hex)
  qed
qed

lemma nat_digits_length: "0 < k \<Longrightarrow> n < 16 ^ k \<Longrightarrow> length (nat_digits 16 n) \<le> k"
proof (induction k arbitrary: n)
  case 0
  then show ?case by simp
next
  case (Suc k)
  show ?case
  proof (cases "n < 16")
    case True
    then show ?thesis by (subst nat_digits.simps) simp
  next
    case False
    with Suc.prems have k: "0 < k" by (cases k) auto
    from Suc.prems have "n div 16 < 16 ^ k"
      by (simp add: less_mult_imp_div_less mult.commute)
    with Suc.IH k have "length (nat_digits 16 (n div 16)) \<le> k" by simp
    with False show ?thesis by (subst nat_digits.simps) simp
  qed
qed

lemma nat_digits_not_Nil: "nat_digits b n \<noteq> []"
  by (subst nat_digits.simps) simp

lemma ALL_ONES_v6: "ALL_ONES IPV6LENGTH = 2 ^ 128 - 1"
  unfolding ALL_ONES_def IPV6LENGTH_def by simp

lemma hex32_props:
  assumes "0 \<le> ip" "ip \<le> ALL_ONES IPV6LENGTH"
  shows "length (hex32 ip) = 32 \<and> list_all is_hex_digit (hex32 ip)"
proof -
  from assms have "nat ip < 16 ^ 32"
    unfolding ALL_ONES_v6 by (simp add: nat_less_iff)
  then have len: "length (nat_digits 16 (nat ip)) \<le> 32"
    by (intro nat_digits_length) simp_all
  have zero: "is_hex_digit CHR ''0''" unfolding is_hex_digit_def by simp
  from assms(1) have h: "hex_int ip = nat_digits 16 (nat ip)"
    unfolding hex_int_def by simp
  show ?thesis
    unfolding hex32_def Let_def h using len nat_digits_hex [of "nat ip"] zero
    by (auto simp: list_all_iff)
qed

lemma hex_chunk:
  assumes "length hs = 32" "list_all is_hex_digit hs" "x + 4 \<le> 32"
  shows "py_int16 (take 4 (drop x hs)) = Inr (digits_value 16 (take 4 (drop x hs)))"
proof -
  have "length (take 4 (drop x hs)) = 4" using assms(1,3) by simp
  then have ne: "take 4 (drop x hs) \<noteq> []" by auto
  have "set (take 4 (drop x hs)) \<subseteq> set hs"
    by (meson set_take_subset set_drop_subset subset_trans)
  with assms(2) have "list_all is_hex_digit (take 4 (drop x hs))"
    by (auto simp: list_all_iff)
  with ne show ?thesis unfolding py_int16_def by simp
qed

lemma mapM_exn_all_Inr:
  "(\<And>x. x \<in> set xs \<Longrightarrow> f x = Inr (g x)) \<Longrightarrow> mapM_exn f xs = Inr (map g xs)"
  by (induction xs) simp_all

lemma string_from_ip_int_v6_Inr:
  assumes "0 \<le> ip" "ip \<le> ALL_ONES IPV6LENGTH"
  shows "\<exists>text. string_from_ip_int_v6 ip = Inr text"
proof -
  from hex32_props [OF assms]
  have l: "length (hex32 ip) = 32" and h: "list_all is_hex_digit (hex32 ip)" by simp_all
  have c: "py_int16 (take 4 (drop x (hex32 ip))) = Inr (digits_value 16 (take 4 (drop x (hex32 ip))))"
    if "x + 4 \<le> 32" for x
    using hex_chunk [OF l h that] .
  have "mapM_exn (\<lambda>x. bind_exn (py_int16 (take 4 (drop x (hex32 ip)))) (\<lambda>h. Inr (hex_int h)))
          [0, 4, 8, 12, 16, 20, 24, 28]
        = Inr (map (\<lambda>x. hex_int (digits_value 16 (take 4 (drop x (hex32 ip)))))
                 [0, 4, 8, 12, 16, 20, 24, 28])"
    by (rule mapM_exn_all_Inr) (auto simp: c c [of 0, simplified])
  then show ?thesis
    unfolding string_from_ip_int_v6_def Let_def using assms(2)
    by (simp del: mapM_exn.simps)
qed

lemma v6_network_address_range:
  assumes "na AND ip_int_from_prefix IPV6LENGTH p = na"
  shows "0 \<le> na \<and> na \<le> ALL_ONES IPV6LENGTH"
  using masked_range [of "ip_int_from_prefix IPV6LENGTH p" "ALL_ONES IPV6LENGTH" na]
    ip_int_from_prefix_range [of IPV6LENGTH p] assms by simp

lemma str_address_v6_Inr:
  assumes "na AND ip_int_from_prefix IPV6LENGTH p = na"
  shows "\<exists>text. str_address (IPv6Address na sc) = Inr text"
proof -
  from v6_network_address_range [OF assms] string_from_ip_int_v6_Inr
  obtain t where "string_from_ip_int_v6 na = Inr t" by blast
  then show ?thesis by simp
qed

section \<open>The result for an IPv6 network\<close>

lemma ipv6_details_eq:
  "ipv6_details (IPv6Network na nm p) d =
     Inr (dict_set (dict_set (dict_set (dict_set (dict_set (dict_set d
       ''Subnet Mask Concept'' (Text ''Not Applicable (N/A)''))
       ''Host Bits'' (Number (128 - p)))
       ''Total IP Addresses''
         (Text (if 128 - p \<ge> 64 then ''2^'' @ str_int (128 - p) @ '' (Standard /64 Subnet)''
                else ''2^'' @ str_int (128 - p))))
       ''Usable Host Count''
         (Text (if 128 - p \<ge> 64 then ''Effectively infinite'' else ''2^'' @ str_int (128 - p))))
       ''Broadcast Address Concept'' (Text ''Not Applicable (Uses Multicast)''))
       ''Host Range Concept'' (Text ''The entire address space after the prefix.''))"
  unfolding ipv6_details_def by (simp add: Let_def)

lemma subnet_details_v6:
  assumes str: "str_address na = Inr nid"
  shows "subnet_details s (IPv6Network na nm p) =
         Inr [(''Input IP/CIDR'', Text s), (''IP Version'', Text ''IPv6''),
              (''Network ID'', Text nid),
              (''CIDR Prefix'', Text (''/'' @ str_int p)),
              (''Subnet Mask Concept'', Text ''Not Applicable (N/A)''),
              (''Host Bits'', Number (128 - p)),
              (''Total IP Addresses'',
                 Text (if 128 - p \<ge> 64
                       then ''2^'' @ str_int (128 - p) @ '' (Standard /64 Subnet)''
                       else ''2^'' @ str_int (128 - p))),
              (''Usable Host Count'',
                 Text (if 128 - p \<ge> 64 then ''Effectively infinite''
                       else ''2^'' @ str_int (128 - p))),
              (''Broadcast Address Concept'', Text ''Not Applicable (Uses Multicast)''),
              (''Host Range Concept'', Text ''The entire address space after the prefix.'')]"
  unfolding subnet_details_def
  apply (simp add: str Let_def str_int_small dict_set_new del: str_address.simps)
  apply (simp only: ipv6_details_eq)
  apply (simp add: dict_set_new)
  done

section \<open>The calculator on the result of \<^verbatim>\<open>ip_network\<close>\<close>

lemma calculate_fst:
  "fst (calculate_subnet_details st s) =
     (case bind_exn (fst (ip_network st s)) (subnet_details s) of
        Inl e \<Rightarrow>
          if is_ValueError e then Inr [(''Error'', Text (''Invalid input: '' @ exn_str e))]
          else Inl e
      | Inr d \<Rightarrow> Inr d)"
  unfolding calculate_subnet_details_def by (simp split: prod.splits)

lemma calculate_snd: "snd (calculate_subnet_details st s) = snd (ip_network st s)"
  unfolding calculate_subnet_details_def by (simp split: prod.splits)

lemma calculate_error:
  assumes "state_ok st" "fst (ip_network st s) = Inl e"
  shows "fst (calculate_subnet_details st s) =
           Inr [(''Error'', Text (''Invalid input: '' @ py_repr s
                   @ '' does not appear to be an IPv4 or IPv6 network''))]"
  using ip_network_error [OF assms] assms(2) unfolding calculate_fst by simp

lemma wf_network_v4:
  assumes "wf_network net" "version net = 4"
  obtains na p where
    "net = IPv4Network (IPv4Address na) (IPv4Address (ip_int_from_prefix IPV4LENGTH p)) p"
    "na AND ip_int_from_prefix IPV4LENGTH p = na" "0 \<le> p" "p \<le> 32"
  using assms by (induction net rule: wf_network.induct) auto

lemma wf_network_v6:
  assumes "wf_network net" "version net = 6"
  obtains na sc sc' p where
    "net = IPv6Network (IPv6Address na sc) (IPv6Address (ip_int_from_prefix IPV6LENGTH p) sc') p"
    "na AND ip_int_from_prefix IPV6LENGTH p = na" "0 \<le> p" "p \<le> 128"
  using assms by (induction net rule: wf_network.induct) auto

lemma version_cases: "version net = 4 \<or> version net = 6"
  by (cases net) auto

lemma calculate_success:
  assumes "fst (ip_network st s) = Inr net" "subnet_details s net = Inr d"
  shows "fst (calculate_subnet_details st s) = Inr d"
  using assms unfolding calculate_fst by simp

section \<open>Evaluation of concrete inputs\<close>

lemmas eval_v4_network =
  ip_network_def IPv4Network_init_def split_addr_prefix_def split_optional_netmask_def
  init_state_def IPv4Address_of_str_def eval_v4_parse make_netmask_v4_def
  compute_netmask_v4_def prefix_from_prefix_string_def IPV4LENGTH_def IPv4Address_of_int_def
  check_int_address_def ip_int_from_prefix_def ALL_ONES_def

lemma big_endian_4:
  "big_endian 4 n =
     [char_of (n div 256 div 256 div 256), char_of (n div 256 div 256), char_of (n div 256),
      char_of n]"
proof -
  have "big_endian (Suc (Suc (Suc (Suc 0)))) n =
     [char_of (n div 256 div 256 div 256), char_of (n div 256 div 256), char_of (n div 256),
      char_of n]"
    by simp
  moreover have "(4 :: nat) = Suc (Suc (Suc (Suc 0)))" by simp
  ultimately show ?thesis by (simp only:)
qed

lemma int_of_char_char_of: "(of_char (char_of (n :: nat)) :: int) = int (n mod 256)"
proof -
  have "(of_char (char_of n) :: int) = of_nat (of_char (char_of n) :: nat)"
    by (simp only: of_nat_of_char)
  then show ?thesis by simp
qed

lemmas eval_dotted_quad =
  dotted_quad_def big_endian_4 int_of_char_char_of str_int_def nat_digits.simps digit_char_def

lemma ip_network_10_0_0_0_31:
  "fst (ip_network init_state ''10.0.0.0/31'')
     = Inr (IPv4Network (IPv4Address 167772160) (IPv4Address 4294967294) 31)"
  by (simp add: eval_v4_network)

lemma ip_network_10_0_0_5_32:
  "fst (ip_network init_state ''10.0.0.5/32'')
     = Inr (IPv4Network (IPv4Address 167772165) (IPv4Address 4294967295) 32)"
  by (simp add: eval_v4_network)

lemma dotted_quad_examples:
  "dotted_quad 167772160 = ''10.0.0.0''"
  "dotted_quad 167772161 = ''10.0.0.1''"
  "dotted_quad 167772165 = ''10.0.0.5''"
  by (simp_all add: eval_dotted_quad)

section \<open>The claims\<close>

text \<open>
  Claim C5. For every input that \<^verbatim>\<open>ip_network\<close> accepts as an IPv4 network with prefix
  length 31, the calculation returns a result whose usable host count is the text
  \<^verbatim>\<open>2 (RFC 3021 P2P)\<close>, whose broadcast address is the network address plus one, and
  whose host range runs from the network address to that address, marked
  \<^verbatim>\<open>(RFC 3021 P2P)\<close>.
\<close>

theorem slash31_point_to_point:
  assumes "state_ok st" "fst (ip_network st s) = Inr net" "version net = 4" "prefixlen net = 31"
  shows "\<exists>d. fst (calculate_subnet_details st s) = Inr d
           \<and> map_of d ''Usable Host Count'' = Some (Text ''2 (RFC 3021 P2P)'')
           \<and> map_of d ''Broadcast Address''
               = Some (Text (dotted_quad (ip_int (network_address net) + 1)))
           \<and> map_of d ''Usable Host Range''
               = Some (Text (dotted_quad (ip_int (network_address net)) @ '' - ''
                         @ dotted_quad (ip_int (network_address net) + 1)
                         @ '' (RFC 3021 P2P)''))"
proof -
  from ip_network_wf [OF assms(1,2)] have wf: "wf_network net" .
  from wf assms(3) obtain na p where
    net: "net = IPv4Network (IPv4Address na) (IPv4Address (ip_int_from_prefix IPV4LENGTH p)) p"
    and m: "na AND ip_int_from_prefix IPV4LENGTH p = na"
    by (rule wf_network_v4)
  from net assms(4) have p: "p = 31" by simp
  note r = subnet_details_v4_31 [OF m [unfolded p], of s]
  from calculate_success [OF assms(2) [unfolded net p] r]
  show ?thesis unfolding net p by simp
qed

theorem slash31_point_to_point_witness:
  "state_ok init_state
   \<and> fst (ip_network init_state ''10.0.0.0/31'')
       = Inr (IPv4Network (IPv4Address 167772160) (IPv4Address 4294967294) 31)
   \<and> (\<exists>d. fst (calculate_subnet_details init_state ''10.0.0.0/31'') = Inr d
           \<and> map_of d ''Usable Host Count'' = Some (Text ''2 (RFC 3021 P2P)'')
           \<and> map_of d ''Broadcast Address'' = Some (Text ''10.0.0.1'')
           \<and> map_of d ''Usable Host Range''
               = Some (Text ''10.0.0.0 - 10.0.0.1 (RFC 3021 P2P)''))"
  using slash31_point_to_point [OF state_ok_init ip_network_10_0_0_0_31]
    state_ok_init ip_network_10_0_0_0_31
  by (auto simp add: dotted_quad_examples)

text \<open>
  Claim C6. For every input that \<^verbatim>\<open>ip_network\<close> accepts as an IPv4 network with prefix
  length 32, the calculation returns a result whose usable host count is the text
  \<^verbatim>\<open>1 (Single Address)\<close> and whose broadcast address and host range are both the
  network address itself.
\<close>

theorem slash32_single_address:
  assumes "state_ok st" "fst (ip_network st s) = Inr net" "version net = 4" "prefixlen net = 32"
  shows "\<exists>d. fst (calculate_subnet_details st s) = Inr d
           \<and> map_of d ''Usable Host Count'' = Some (Text ''1 (Single Address)'')
           \<and> map_of d ''Network ID'' = Some (Text (dotted_quad (ip_int (network_address net))))
           \<and> map_of d ''Broadcast Address''
               = Some (Text (dotted_quad (ip_int (network_address net))))
           \<and> map_of d ''Usable Host Range''
               = Some (Text (dotted_quad (ip_int (network_address net))))"
proof -
  from ip_network_wf [OF assms(1,2)] have wf: "wf_network net" .
  from wf assms(3) obtain na p where
    net: "net = IPv4Network (IPv4Address na) (IPv4Address (ip_int_from_prefix IPV4LENGTH p)) p"
    and m: "na AND ip_int_from_prefix IPV4LENGTH p = na"
    by (rule wf_network_v4)
  from net assms(4) have p: "p = 32" by simp
  note r = subnet_details_v4_32 [OF m [unfolded p], of s]
  from calculate_success [OF assms(2) [unfolded net p] r]
  show ?thesis unfolding net p by simp
qed

theorem slash32_single_address_witness:
  "state_ok init_state
   \<and> fst (ip_network init_state ''10.0.0.5/32'')
       = Inr (IPv4Network (IPv4Address 167772165) (IPv4Address 4294967295) 32)
   \<and> (\<exists>d. fst (calculate_subnet_details init_state ''10.0.0.5/32'') = Inr d
           \<and> map_of d ''Usable Host Count'' = Some (Text ''1 (Single Address)'')
           \<and> map_of d ''Broadcast Address'' = Some (Text ''10.0.0.5'')
           \<and> map_of d ''Usable Host Range'' = Some (Text ''10.0.0.5''))"
  using slash32_single_address [OF state_ok_init ip_network_10_0_0_5_32]
    state_ok_init ip_network_10_0_0_5_32
  by (auto simp add: dotted_quad_examples)

section \<open>Every call returns a complete result or the error entry\<close>

lemma subnet_details_v4_keys:
  assumes wf: "na AND ip_int_from_prefix IPV4LENGTH p = na"
  shows "\<exists>d. subnet_details s (IPv4Network (IPv4Address na)
                 (IPv4Address (ip_int_from_prefix IPV4LENGTH p)) p) = Inr d
             \<and> map fst d = ipv4_fields"
proof -
  consider "p = 31" | "p = 32" | "p \<noteq> 31" "p \<noteq> 32" by blast
  then show ?thesis
  proof cases
    case 1
    show ?thesis
      unfolding 1 subnet_details_v4_31 [OF wf [unfolded 1]] by (simp add: ipv4_fields_def)
  next
    case 2
    show ?thesis
      unfolding 2 subnet_details_v4_32 [OF wf [unfolded 2]] by (simp add: ipv4_fields_def)
  next
    case 3
    show ?thesis
      unfolding subnet_details_v4_other [OF wf 3] by (simp add: ipv4_fields_def)
  qed
qed

lemma subnet_details_v6_keys:
  assumes wf: "na AND ip_int_from_prefix IPV6LENGTH p = na"
  shows "\<exists>d. subnet_details s (IPv6Network (IPv6Address na sc) nm p) = Inr d
             \<and> map fst d = ipv6_fields"
proof -
  from str_address_v6_Inr [OF wf] obtain nid where "str_address (IPv6Address na sc) = Inr nid"
    by blast
  from subnet_details_v6 [OF this] show ?thesis by (simp add: ipv6_fields_def)
qed

lemma subnet_details_keys:
  assumes "wf_network net"
  shows "\<exists>d. subnet_details s net = Inr d
             \<and> map fst d = (if version net = 4 then ipv4_fields else ipv6_fields)"
proof -
  from version_cases [of net] show ?thesis
  proof
    assume v: "version net = 4"
    from assms v obtain na p where
      net: "net = IPv4Network (IPv4Address na) (IPv4Address (ip_int_from_prefix IPV4LENGTH p)) p"
      and m: "na AND ip_int_from_prefix IPV4LENGTH p = na"
      by (rule wf_network_v4)
    from subnet_details_v4_keys [OF m, of s] show ?thesis unfolding net by simp
  next
    assume v: "version net = 6"
    from assms v obtain na sc sc' p where
      net: "net = IPv6Network (IPv6Address na sc)
                    (IPv6Address (ip_int_from_prefix IPV6LENGTH p) sc') p"
      and m: "na AND ip_int_from_prefix IPV6LENGTH p = na"
      by (rule wf_network_v6)
    from subnet_details_v6_keys [OF m, of s] show ?thesis unfolding net by simp
  qed
qed

lemma calculate_complete:
  assumes "state_ok st" "fst (ip_network st s) = Inr net"
  shows "\<exists>d. fst (calculate_subnet_details st s) = Inr d \<and> subnet_details s net = Inr d
             \<and> map fst d = (if version net = 4 then ipv4_fields else ipv6_fields)"
proof -
  from subnet_details_keys [OF ip_network_wf [OF assms], of s] obtain d where
    d: "subnet_details s net = Inr d"
       "map fst d = (if version net = 4 then ipv4_fields else ipv6_fields)"
    by blast
  from calculate_success [OF assms(2) d(1)] d show ?thesis by simp
qed

lemma calculate_pure:
  assumes "state_ok st"
  shows "fst (calculate_subnet_details st s) = fst (calculate_subnet_details init_state s)"
  unfolding calculate_fst ip_network_pure [OF assms] ..

lemma calculate_state_ok:
  assumes "state_ok st"
  shows "state_ok (snd (calculate_subnet_details st s))"
  unfolding calculate_snd using ip_network_eq [OF assms, of s] by simp

lemma calculate_returns:
  assumes "state_ok st"
  shows "\<exists>d. fst (calculate_subnet_details st s) = Inr d"
proof (cases "fst (ip_network st s)")
  case (Inl e)
  from calculate_error [OF assms Inl] show ?thesis by simp
next
  case (Inr net)
  from calculate_complete [OF assms Inr] show ?thesis by blast
qed

text \<open>
  Claim C9. Two calls of \<^verbatim>\<open>calculate_subnet_details\<close> on the same text return the same
  dictionary: the same keys in the same order with the same values. The only state that a
  call reads is the netmask caches of the library, which the first call may extend; the
  second call, started in the state that the first call left, returns what the first call
  returned, and so does a call started in any other consistent state of the caches. Each
  of these calls returns a dictionary and raises nothing.
\<close>

theorem calculate_deterministic:
  assumes "state_ok st"
  shows "(\<exists>d. fst (calculate_subnet_details st s) = Inr d
            \<and> fst (calculate_subnet_details (snd (calculate_subnet_details st s)) s) = Inr d)
         \<and> (\<forall>st'. state_ok st' \<longrightarrow>
               fst (calculate_subnet_details st' s) = fst (calculate_subnet_details st s))"
proof -
  from calculate_returns [OF assms, of s] obtain d where
    d: "fst (calculate_subnet_details st s) = Inr d" by blast
  from calculate_pure [OF calculate_state_ok [OF assms, of s], of s] calculate_pure [OF assms, of s] d
  have "fst (calculate_subnet_details (snd (calculate_subnet_details st s)) s) = Inr d"
    by simp
  moreover have "\<forall>st'. state_ok st' \<longrightarrow>
      fst (calculate_subnet_details st' s) = fst (calculate_subnet_details st s)"
    using calculate_pure [OF assms, of s] calculate_pure [of _ s] by simp
  ultimately show ?thesis using d by simp
qed
lemma ip_network_192_168_1_50_26:
  "fst (ip_network init_state ''192.168.1.50/26'')
     = Inr (IPv4Network (IPv4Address 3232235776)
              (IPv4Address (ip_int_from_prefix IPV4LENGTH 26)) 26)"
  by (simp add: eval_v4_network)

lemmas eval_v4_details =
  broadcast_int_def ip_int_from_prefix_def IPV4LENGTH_def ALL_ONES_def eval_dotted_quad
  get_ip_class_def py_int_def strip_int_space_def int_space_def is_ascii_digit_def
  digits_value_def digit_val_def int_max_str_digits_def Let_def

lemma details_192_168_1_50_26:
  "fst (calculate_subnet_details init_state ''192.168.1.50/26'') =
     Inr [(''Input IP/CIDR'', Text ''192.168.1.50/26''), (''IP Version'', Text ''IPv4''),
          (''Network ID'', Text ''192.168.1.0''), (''Historical Class'', Text ''Class C''),
          (''CIDR Prefix'', Text ''/26''), (''Subnet Mask'', Text ''255.255.255.192''),
          (''Host Bits (h)'', Number 6), (''Subnet Bits (s)'', Number 2),
          (''Total IP Addresses'', Number 64), (''Usable Host Count'', Number 62),
          (''Broadcast Address'', Text ''192.168.1.63''),
          (''Usable Host Range'', Text ''192.168.1.1 - 192.168.1.62'')]"
proof -
  have m: "3232235776 AND ip_int_from_prefix IPV4LENGTH 26 = 3232235776"
    by (simp add: ip_int_from_prefix_def IPV4LENGTH_def ALL_ONES_def)
  have p: "(26 :: int) \<noteq> 31" "(26 :: int) \<noteq> 32" by simp_all
  show ?thesis
    unfolding calculate_success [OF ip_network_192_168_1_50_26 subnet_details_v4_other [OF m p]]
    by (simp add: eval_v4_details)
qed

theorem calculate_deterministic_witness:
  "state_ok init_state
   \<and> fst (calculate_subnet_details init_state ''192.168.1.50/26'') =
     Inr [(''Input IP/CIDR'', Text ''192.168.1.50/26''), (''IP Version'', Text ''IPv4''),
          (''Network ID'', Text ''192.168.1.0''), (''Historical Class'', Text ''Class C''),
          (''CIDR Prefix'', Text ''/26''), (''Subnet Mask'', Text ''255.255.255.192''),
          (''Host Bits (h)'', Number 6), (''Subnet Bits (s)'', Number 2),
          (''Total IP Addresses'', Number 64), (''Usable Host Count'', Number 62),
          (''Broadcast Address'', Text ''192.168.1.63''),
          (''Usable Host Range'', Text ''192.168.1.1 - 192.168.1.62'')]
   \<and> fst (calculate_subnet_details
            (snd (calculate_subnet_details init_state ''192.168.1.50/26'')) ''192.168.1.50/26'') =
     Inr [(''Input IP/CIDR'', Text ''192.168.1.50/26''), (''IP Version'', Text ''IPv4''),
          (''Network ID'', Text ''192.168.1.0''), (''Historical Class'', Text ''Class C''),
          (''CIDR Prefix'', Text ''/26''), (''Subnet Mask'', Text ''255.255.255.192''),
          (''Host Bits (h)'', Number 6), (''Subnet Bits (s)'', Number 2),
          (''Total IP Addresses'', Number 64), (''Usable Host Count'', Number 62),
          (''Broadcast Address'', Text ''192.168.1.63''),
          (''Usable Host Range'', Text ''192.168.1.1 - 192.168.1.62'')]"
  using calculate_deterministic [OF state_ok_init, of "''192.168.1.50/26''"]
    state_ok_init details_192_168_1_50_26
  by (simp del: One_nat_def)

end
